theory Spec2Isabelle
  imports Complex_Main
begin

section \<open>Data model\<close>

text \<open>
  The structures of \<^verbatim>\<open>psolve.h\<close> as the two source files use them. A \<^verbatim>\<open>double\<close> is
  modelled as a real number (exact arithmetic, no rounding), except in the section on
  double arithmetic, which writes the rounding of every operation out. An array reached
  through a pointer (\<^verbatim>\<open>elemTable\<close>, \<^verbatim>\<open>eTable\<close>, \<^verbatim>\<open>tm1\<close>, \<^verbatim>\<open>force\<close>, \<^verbatim>\<open>lnid\<close>, the
  mapper, the device buffers) is a store from index to value; a local array of fixed size
  (\<^verbatim>\<open>curDisp[8]\<close>, \<^verbatim>\<open>localForce[8]\<close>, \<^verbatim>\<open>atu[24]\<close>) is a list of that length.
  The element count \<^verbatim>\<open>lenum\<close> (\<^verbatim>\<open>int32_t\<close>) is an integer, negative values included:
  the selector compares its count with it. Indices, loop counters and the node count
  \<^verbatim>\<open>nharbored\<close> (\<^verbatim>\<open>int32_t\<close> as well) are natural numbers: a counter starts at 0 and
  stops at a bound of at most \<open>2\<^sup>3\<^sup>1 - 1\<close>, so it neither goes below 0 nor wraps around, and
  the source uses \<^verbatim>\<open>nharbored\<close> as the length of the two copies of a step and as the
  bound of a thread's index only.
\<close>

text \<open>\<^verbatim>\<open>fvector_t\<close>: a struct holding \<^verbatim>\<open>double f[3]\<close>.\<close>

datatype fvector_t = fvector (f0: real) (f1: real) (f2: real)

text \<open>\<^verbatim>\<open>v.f[j]\<close> for \<^verbatim>\<open>j\<close> in 0..2.\<close>

definition f_at :: "fvector_t \<Rightarrow> nat \<Rightarrow> real" where
  "f_at v j = (if j = 0 then f0 v else if j = 1 then f1 v else f2 v)"

text \<open>
  The three statements \<^verbatim>\<open>nodalForce->f[k] += localForce[i].f[k]\<close>, \<^verbatim>\<open>k = 0, 1, 2\<close>,
  that end both evaluators and the reduction kernel.
\<close>

definition fvector_add :: "fvector_t \<Rightarrow> fvector_t \<Rightarrow> fvector_t" where
  "fvector_add nodalForce localForce =
     fvector (f0 nodalForce + f0 localForce)
             (f1 nodalForce + f1 localForce)
             (f2 nodalForce + f2 localForce)"

text \<open>\<^verbatim>\<open>elem_t\<close>: the eight node identifiers of an element, \<^verbatim>\<open>int32_t lnid[8]\<close>.\<close>

record elem_t =
  lnid :: "nat \<Rightarrow> nat"

text \<open>\<^verbatim>\<open>e_t\<close>: the material coefficients of an element.\<close>

record e_t =
  c1 :: real
  c2 :: real

record mesh_t =
  lenum :: int
  nharbored :: nat
  elemTable :: "nat \<Rightarrow> elem_t"

record mysolver_t =
  eTable :: "nat \<Rightarrow> e_t"
  tm1 :: "nat \<Rightarrow> fvector_t"
  force :: "nat \<Rightarrow> fvector_t"

text \<open>
  \<^verbatim>\<open>fprintf(stderr, ...); MPI_Abort(MPI_COMM_WORLD, ERROR); exit(1);\<close> ends the process:
  the result is the message written to \<^verbatim>\<open>stderr\<close> (without its \<^verbatim>\<open>Thread %d:\<close> prefix).
\<close>

datatype fatal = Abort string


section \<open>Element selector\<close>

text \<open>
  \<^verbatim>\<open>isThisElementNonLinear(myMesh, eindex)\<close> belongs to the nonlinear module; it is a
  parameter here, \<open>True\<close> standing for \<^verbatim>\<open>YES\<close>.
\<close>

type_synonym nonlinear_predicate = "mesh_t \<Rightarrow> nat \<Rightarrow> bool"

text \<open>The counting loop of \<^verbatim>\<open>linear_elements_count\<close>, one element per step.\<close>

definition count_step :: "nonlinear_predicate \<Rightarrow> mesh_t \<Rightarrow> nat \<Rightarrow> nat \<Rightarrow> nat" where
  "count_step isThisElementNonLinear myMesh count eindex =
     (if \<not> isThisElementNonLinear myMesh eindex then count + 1 else count)"

text \<open>
  \<^verbatim>\<open>linear_elements_count\<close>: the value stored in \<^verbatim>\<open>myLinearElementsCount\<close>, or the abort.
  The loop \<^verbatim>\<open>for (eindex = 0; eindex < myMesh->lenum; eindex++)\<close> visits
  \<open>0, \<dots>, lenum - 1\<close>, and nothing when \<^verbatim>\<open>lenum\<close> is 0 or negative.
\<close>

definition linear_elements_count :: "nonlinear_predicate \<Rightarrow> mesh_t \<Rightarrow> fatal + nat" where
  "linear_elements_count isThisElementNonLinear myMesh =
     (let count = foldl (count_step isThisElementNonLinear myMesh) 0 [0..<nat (lenum myMesh)]
      in if int count > lenum myMesh
         then Inl (Abort ''linear_elements_count: more elements than expected'')
         else Inr count)"

text \<open>
  The filling loop of \<^verbatim>\<open>linear_elements_mapping\<close>: the state is the mapper's storage and
  the running \<^verbatim>\<open>count\<close>.
\<close>

definition mapping_step ::
  "nonlinear_predicate \<Rightarrow> mesh_t \<Rightarrow> (nat \<Rightarrow> nat) \<times> nat \<Rightarrow> nat \<Rightarrow> (nat \<Rightarrow> nat) \<times> nat" where
  "mapping_step isThisElementNonLinear myMesh st eindex =
     (case st of (myLinearElementsMapper, count) \<Rightarrow>
        if \<not> isThisElementNonLinear myMesh eindex
        then (myLinearElementsMapper(count := eindex), count + 1)
        else (myLinearElementsMapper, count))"

text \<open>
  \<^verbatim>\<open>linear_elements_mapping\<close>. \<open>myLinearElementsCount\<close> is the static variable the first
  pass set; \<open>fresh\<close> is the content of the storage \<^verbatim>\<open>XMALLOC_VAR_N\<close> returns. The
  storage has \<open>myLinearElementsCount\<close> cells; a run that stores beyond them ends with
  \<open>count > myLinearElementsCount\<close> and so in the abort. The result is the mapper.
  \<^verbatim>\<open>myLinearElementsCount\<close> (a static \<^verbatim>\<open>int32_t\<close>, zero at the start) is written by
  \<^verbatim>\<open>linear_elements_count\<close> only, with a count: it is a natural number.
\<close>

definition linear_elements_mapping ::
  "nonlinear_predicate \<Rightarrow> mesh_t \<Rightarrow> nat \<Rightarrow> (nat \<Rightarrow> nat) \<Rightarrow> fatal + (nat \<Rightarrow> nat)" where
  "linear_elements_mapping isThisElementNonLinear myMesh myLinearElementsCount fresh =
     (case foldl (mapping_step isThisElementNonLinear myMesh) (fresh, 0)
             [0..<nat (lenum myMesh)] of
        (myLinearElementsMapper, count) \<Rightarrow>
          if count \<noteq> myLinearElementsCount
          then Inl (Abort ''linear_elements_mapping: more elements than the count'')
          else Inr myLinearElementsMapper)"

text \<open>The indices of the linear elements of a mesh, in ascending order.\<close>

definition linear_indices :: "nonlinear_predicate \<Rightarrow> mesh_t \<Rightarrow> nat list" where
  "linear_indices isThisElementNonLinear myMesh =
     filter (\<lambda>eindex. \<not> isThisElementNonLinear myMesh eindex) [0..<nat (lenum myMesh)]"

text \<open>The first \<open>n\<close> cells of a store, as a list.\<close>

definition cells :: "(nat \<Rightarrow> 'a) \<Rightarrow> nat \<Rightarrow> 'a list" where
  "cells a n = map a [0..<n]"


section \<open>Coefficient/transform kernel\<close>

text \<open>\<^verbatim>\<open>#define UNDERFLOW_CAP_STIFFNESS 1e-20\<close>\<close>

definition UNDERFLOW_CAP_STIFFNESS :: real where
  "UNDERFLOW_CAP_STIFFNESS = 1 / 10 ^ 20"

text \<open>
  \<^verbatim>\<open>vector_is_zero\<close>: 1 when some component of the eight vectors exceeds the cap in
  magnitude (the loops return at the first one), 0 when none does.
\<close>

definition vector_is_zero :: "fvector_t list \<Rightarrow> int" where
  "vector_is_zero v =
     (if list_ex (\<lambda>i. list_ex (\<lambda>j. \<bar>f_at (v ! i) j\<bar> > UNDERFLOW_CAP_STIFFNESS) [0..<3]) [0..<8]
      then 1 else 0)"

text \<open>\<^verbatim>\<open>reformF\<close>: axis-major to node-major.\<close>

definition reformF :: "real list \<Rightarrow> real list" where
  "reformF u =
     [u ! 0, u ! 8, u ! 16,
      u ! 1, u ! 9, u ! 17,
      u ! 2, u ! 10, u ! 18,
      u ! 3, u ! 11, u ! 19,
      u ! 4, u ! 12, u ! 20,
      u ! 5, u ! 13, u ! 21,
      u ! 6, u ! 14, u ! 22,
      u ! 7, u ! 15, u ! 23]"

text \<open>\<^verbatim>\<open>reformU\<close>: node-major to axis-major.\<close>

definition reformU :: "real list \<Rightarrow> real list" where
  "reformU u =
     [u ! 0, u ! 3, u ! 6, u ! 9, u ! 12, u ! 15, u ! 18, u ! 21,
      u ! 1, u ! 4, u ! 7, u ! 10, u ! 13, u ! 16, u ! 19, u ! 22,
      u ! 2, u ! 5, u ! 8, u ! 11, u ! 14, u ! 17, u ! 20, u ! 23]"

text \<open>
  The first loop of \<^verbatim>\<open>aTransposeU\<close>: \<^verbatim>\<open>temp[i*3 + j] = un[i].f[j]\<close> for \<^verbatim>\<open>i < 8\<close>,
  \<^verbatim>\<open>j < 3\<close>.
\<close>

definition arrange :: "fvector_t list \<Rightarrow> real list" where
  "arrange un = concat (map (\<lambda>i. map (\<lambda>j. f_at (un ! i) j) [0..<3]) [0..<8])"

text \<open>The 24 assignments of \<^verbatim>\<open>aTransposeU\<close> to \<^verbatim>\<open>atu\<close>, from the reordered \<^verbatim>\<open>u\<close>.\<close>

definition aTransposeU_rows :: "real list \<Rightarrow> real list" where
  "aTransposeU_rows u =
     [0,
      - u ! 0 - u ! 1 - u ! 2 - u ! 3 + u ! 4 + u ! 5 + u ! 6 + u ! 7,
      - u ! 0 - u ! 1 + u ! 2 + u ! 3 - u ! 4 - u ! 5 + u ! 6 + u ! 7,
      - u ! 0 + u ! 1 - u ! 2 + u ! 3 - u ! 4 + u ! 5 - u ! 6 + u ! 7,
      u ! 0 + u ! 1 - u ! 2 - u ! 3 - u ! 4 - u ! 5 + u ! 6 + u ! 7,
      u ! 0 - u ! 1 + u ! 2 - u ! 3 - u ! 4 + u ! 5 - u ! 6 + u ! 7,
      u ! 0 - u ! 1 - u ! 2 + u ! 3 + u ! 4 - u ! 5 - u ! 6 + u ! 7,
      - u ! 0 + u ! 1 + u ! 2 - u ! 3 + u ! 4 - u ! 5 - u ! 6 + u ! 7,
      0,
      - u ! 8 - u ! 9 - u ! 10 - u ! 11 + u ! 12 + u ! 13 + u ! 14 + u ! 15,
      - u ! 8 - u ! 9 + u ! 10 + u ! 11 - u ! 12 - u ! 13 + u ! 14 + u ! 15,
      - u ! 8 + u ! 9 - u ! 10 + u ! 11 - u ! 12 + u ! 13 - u ! 14 + u ! 15,
      u ! 8 + u ! 9 - u ! 10 - u ! 11 - u ! 12 - u ! 13 + u ! 14 + u ! 15,
      u ! 8 - u ! 9 + u ! 10 - u ! 11 - u ! 12 + u ! 13 - u ! 14 + u ! 15,
      u ! 8 - u ! 9 - u ! 10 + u ! 11 + u ! 12 - u ! 13 - u ! 14 + u ! 15,
      - u ! 8 + u ! 9 + u ! 10 - u ! 11 + u ! 12 - u ! 13 - u ! 14 + u ! 15,
      0,
      - u ! 16 - u ! 17 - u ! 18 - u ! 19 + u ! 20 + u ! 21 + u ! 22 + u ! 23,
      - u ! 16 - u ! 17 + u ! 18 + u ! 19 - u ! 20 - u ! 21 + u ! 22 + u ! 23,
      - u ! 16 + u ! 17 - u ! 18 + u ! 19 - u ! 20 + u ! 21 - u ! 22 + u ! 23,
      u ! 16 + u ! 17 - u ! 18 - u ! 19 - u ! 20 - u ! 21 + u ! 22 + u ! 23,
      u ! 16 - u ! 17 + u ! 18 - u ! 19 - u ! 20 + u ! 21 - u ! 22 + u ! 23,
      u ! 16 - u ! 17 - u ! 18 + u ! 19 + u ! 20 - u ! 21 - u ! 22 + u ! 23,
      - u ! 16 + u ! 17 + u ! 18 - u ! 19 + u ! 20 - u ! 21 - u ! 22 + u ! 23]"

text \<open>\<^verbatim>\<open>aTransposeU\<close>: the result is the array \<^verbatim>\<open>atu\<close>.\<close>

definition aTransposeU :: "fvector_t list \<Rightarrow> real list" where
  "aTransposeU un = (let temp = arrange un; u = reformU temp in aTransposeU_rows u)"

text \<open>
  \<^verbatim>\<open>firstVector\<close>: the result is \<^verbatim>\<open>finalVector\<close>. The parameters keep the source's
  order \<^verbatim>\<open>(atu, finalVector, a, c, b)\<close>.
\<close>

definition firstVector :: "real list \<Rightarrow> real \<Rightarrow> real \<Rightarrow> real \<Rightarrow> real list" where
  "firstVector atu a c b =
     [0,
      b * (atu ! 19 + atu ! 1),
      b * (atu ! 11 + atu ! 2),
      a * atu ! 3 + c * (atu ! 10 + atu ! 17),
      b * (atu ! 13 + atu ! 22 + 2 * atu ! 4) / 3,
      ((a + b) * atu ! 5 + c * atu ! 12) / 3,
      ((a + b) * atu ! 6 + c * atu ! 20) / 3,
      ((a + 2 * b) * atu ! 7) / 9,
      0,
      b * (atu ! 18 + atu ! 9),
      a * atu ! 10 + c * (atu ! 3 + atu ! 17),
      b * (atu ! 11 + atu ! 2),
      ((a + b) * atu ! 12 + c * atu ! 5) / 3,
      b * (atu ! 4 + atu ! 22 + 2 * atu ! 13) / 3,
      ((a + b) * atu ! 14 + c * atu ! 21) / 3,
      (a + 2 * b) * atu ! 15 / 9,
      0,
      a * atu ! 17 + c * (atu ! 3 + atu ! 10),
      b * (atu ! 18 + atu ! 9),
      b * (atu ! 19 + atu ! 1),
      ((a + b) * atu ! 20 + c * atu ! 6) / 3,
      ((a + b) * atu ! 21 + c * atu ! 14) / 3,
      b * (atu ! 4 + atu ! 13 + 2 * atu ! 22) / 3,
      (a + 2 * b) * atu ! 23 / 9]"

text \<open>The 24 assignments of \<^verbatim>\<open>au\<close> to \<^verbatim>\<open>finVec\<close>.\<close>

definition au_rows :: "real list \<Rightarrow> real list" where
  "au_rows u =
     [u ! 0 - u ! 1 - u ! 2 - u ! 3 + u ! 4 + u ! 5 + u ! 6 - u ! 7,
      u ! 0 - u ! 1 - u ! 2 + u ! 3 + u ! 4 - u ! 5 - u ! 6 + u ! 7,
      u ! 0 - u ! 1 + u ! 2 - u ! 3 - u ! 4 + u ! 5 - u ! 6 + u ! 7,
      u ! 0 - u ! 1 + u ! 2 + u ! 3 - u ! 4 - u ! 5 + u ! 6 - u ! 7,
      u ! 0 + u ! 1 - u ! 2 - u ! 3 - u ! 4 - u ! 5 + u ! 6 + u ! 7,
      u ! 0 + u ! 1 - u ! 2 + u ! 3 - u ! 4 + u ! 5 - u ! 6 - u ! 7,
      u ! 0 + u ! 1 + u ! 2 - u ! 3 + u ! 4 - u ! 5 - u ! 6 - u ! 7,
      u ! 0 + u ! 1 + u ! 2 + u ! 3 + u ! 4 + u ! 5 + u ! 6 + u ! 7,
      u ! 8 - u ! 9 - u ! 10 - u ! 11 + u ! 12 + u ! 13 + u ! 14 - u ! 15,
      u ! 8 - u ! 9 - u ! 10 + u ! 11 + u ! 12 - u ! 13 - u ! 14 + u ! 15,
      u ! 8 - u ! 9 + u ! 10 - u ! 11 - u ! 12 + u ! 13 - u ! 14 + u ! 15,
      u ! 8 - u ! 9 + u ! 10 + u ! 11 - u ! 12 - u ! 13 + u ! 14 - u ! 15,
      u ! 8 + u ! 9 - u ! 10 - u ! 11 - u ! 12 - u ! 13 + u ! 14 + u ! 15,
      u ! 8 + u ! 9 - u ! 10 + u ! 11 - u ! 12 + u ! 13 - u ! 14 - u ! 15,
      u ! 8 + u ! 9 + u ! 10 - u ! 11 + u ! 12 - u ! 13 - u ! 14 - u ! 15,
      u ! 8 + u ! 9 + u ! 10 + u ! 11 + u ! 12 + u ! 13 + u ! 14 + u ! 15,
      u ! 16 - u ! 17 - u ! 18 - u ! 19 + u ! 20 + u ! 21 + u ! 22 - u ! 23,
      u ! 16 - u ! 17 - u ! 18 + u ! 19 + u ! 20 - u ! 21 - u ! 22 + u ! 23,
      u ! 16 - u ! 17 + u ! 18 - u ! 19 - u ! 20 + u ! 21 - u ! 22 + u ! 23,
      u ! 16 - u ! 17 + u ! 18 + u ! 19 - u ! 20 - u ! 21 + u ! 22 - u ! 23,
      u ! 16 + u ! 17 - u ! 18 - u ! 19 - u ! 20 - u ! 21 + u ! 22 + u ! 23,
      u ! 16 + u ! 17 - u ! 18 + u ! 19 - u ! 20 + u ! 21 - u ! 22 - u ! 23,
      u ! 16 + u ! 17 + u ! 18 - u ! 19 + u ! 20 - u ! 21 - u ! 22 - u ! 23,
      u ! 16 + u ! 17 + u ! 18 + u ! 19 + u ! 20 + u ! 21 + u ! 22 + u ! 23]"

text \<open>
  \<^verbatim>\<open>au\<close>: the result is the new content of \<^verbatim>\<open>resVec\<close>; the closing loops add
  \<^verbatim>\<open>temp[j*3 + i]\<close> to \<^verbatim>\<open>resVec[j].f[i]\<close>.
\<close>

definition au :: "fvector_t list \<Rightarrow> real list \<Rightarrow> fvector_t list" where
  "au resVec u =
     (let finVec = au_rows u; temp = reformF finVec
      in map (\<lambda>j. fvector (f0 (resVec ! j) + temp ! (j * 3 + 0))
                         (f1 (resVec ! j) + temp ! (j * 3 + 1))
                         (f2 (resVec ! j) + temp ! (j * 3 + 2))) [0..<8])"


section \<open>Effective force evaluator on the host\<close>

text \<open>
  The block that \<^verbatim>\<open>compute_addforce_effective_cpu\<close> (lines 246 to 272) and
  \<^verbatim>\<open>kernelStiffnessCalcLocal\<close> (lines 74 to 100) share word for word: clear
  \<^verbatim>\<open>localForce\<close>, gather the element's eight displacements into \<^verbatim>\<open>curDisp\<close>, and run
  the three transform steps unless \<^verbatim>\<open>vector_is_zero\<close> returns 0.
\<close>

definition gather_curDisp :: "elem_t \<Rightarrow> (nat \<Rightarrow> fvector_t) \<Rightarrow> fvector_t list" where
  "gather_curDisp elemp tm1Disp = map (\<lambda>i. tm1Disp (lnid elemp i)) [0..<8]"

definition element_localForce :: "e_t \<Rightarrow> fvector_t list \<Rightarrow> fvector_t list" where
  "element_localForce ep curDisp =
     (let localForce = replicate 8 (fvector 0 0 0)
      in if vector_is_zero curDisp \<noteq> 0
         then (let first_coeff = - 0.5625 * (c2 ep + 2 * c1 ep);
                   second_coeff = - 0.5625 * c2 ep;
                   third_coeff = - 0.5625 * c1 ep;
                   atu = aTransposeU curDisp;
                   firstVec = firstVector atu first_coeff second_coeff third_coeff
               in au localForce firstVec)
         else localForce)"

text \<open>
  The closing loop of an element's iteration: the eight corner forces are added to the
  entries of the accumulator that \<^verbatim>\<open>lnid\<close> names.
\<close>

definition add_to_nodes ::
  "elem_t \<Rightarrow> fvector_t list \<Rightarrow> (nat \<Rightarrow> fvector_t) \<Rightarrow> (nat \<Rightarrow> fvector_t)" where
  "add_to_nodes elemp localForce nodal =
     foldl (\<lambda>nodal i. nodal(lnid elemp i := fvector_add (nodal (lnid elemp i)) (localForce ! i)))
       nodal [0..<8]"

text \<open>One iteration of the element loop of \<^verbatim>\<open>compute_addforce_effective_cpu\<close>.\<close>

definition effective_cpu_element ::
  "mesh_t \<Rightarrow> mysolver_t \<Rightarrow> (nat \<Rightarrow> nat) \<Rightarrow> (nat \<Rightarrow> fvector_t) \<Rightarrow> nat \<Rightarrow> (nat \<Rightarrow> fvector_t)" where
  "effective_cpu_element myMesh mySolver myLinearElementsMapper nodal lin_eindex =
     (let eindex = myLinearElementsMapper lin_eindex;
          elemp = elemTable myMesh eindex;
          ep = eTable mySolver eindex;
          curDisp = gather_curDisp elemp (tm1 mySolver);
          localForce = element_localForce ep curDisp
      in add_to_nodes elemp localForce nodal)"

text \<open>
  \<^verbatim>\<open>compute_addforce_effective_cpu\<close>; the static variables \<^verbatim>\<open>myLinearElementsCount\<close>
  and \<^verbatim>\<open>myLinearElementsMapper\<close> are arguments. The result is the solver with its
  \<^verbatim>\<open>force\<close> array updated.
\<close>

definition compute_addforce_effective_cpu ::
  "nat \<Rightarrow> (nat \<Rightarrow> nat) \<Rightarrow> mesh_t \<Rightarrow> mysolver_t \<Rightarrow> mysolver_t" where
  "compute_addforce_effective_cpu myLinearElementsCount myLinearElementsMapper myMesh mySolver =
     mySolver\<lparr>force :=
       foldl (effective_cpu_element myMesh mySolver myLinearElementsMapper)
         (force mySolver) [0..<myLinearElementsCount]\<rparr>"


section \<open>Accelerator kernels\<close>

text \<open>
  A kernel is modelled by what one thread does to device memory, given its global index
  \<^verbatim>\<open>blockIdx.x * blockDim.x + threadIdx.x\<close>; a launch \<^verbatim>\<open><<<gridsize, blocksize>>>\<close> runs
  the threads \<open>0, \<dots>, gridsize * blocksize - 1\<close>. No thread of either kernel reads a cell
  that another thread of the same launch writes, so the launch is the threads one after
  the other.
\<close>

definition launch :: "nat \<Rightarrow> nat \<Rightarrow> ('mem \<Rightarrow> nat \<Rightarrow> 'mem) \<Rightarrow> 'mem \<Rightarrow> 'mem" where
  "launch gridsize blocksize thread mem = foldl thread mem [0..<gridsize * blocksize]"

text \<open>
  \<^verbatim>\<open>kernelStiffnessCalcLocal\<close>, thread \<open>lin_eindex\<close>: the new content of
  \<^verbatim>\<open>localForceDevice\<close>. \<^verbatim>\<open>localForce\<close> points at cell \<^verbatim>\<open>lin_eindex*8\<close> of that buffer.
  The parameters are the six of the kernel's definition; the launch in
  \<^verbatim>\<open>compute_addforce_effective_gpu\<close> passes four arguments
  (\<^verbatim>\<open>lenum, gpuDataDevice, myLinearElementsCount, myLinearElementsMapperDevice\<close>), the
  arrays being inside \<^verbatim>\<open>gpuDataDevice\<close>.
\<close>

definition kernelStiffnessCalcLocal ::
  "nat \<Rightarrow> (nat \<Rightarrow> nat) \<Rightarrow> (nat \<Rightarrow> elem_t) \<Rightarrow> (nat \<Rightarrow> e_t) \<Rightarrow> (nat \<Rightarrow> fvector_t)
     \<Rightarrow> (nat \<Rightarrow> fvector_t) \<Rightarrow> nat \<Rightarrow> (nat \<Rightarrow> fvector_t)" where
  "kernelStiffnessCalcLocal myLinearElementsCount myLinearElementsMapperDevice
       elemTableDevice eTableDevice tm1Device localForceDevice lin_eindex =
     (if lin_eindex \<ge> myLinearElementsCount then localForceDevice
      else
        let eindex = myLinearElementsMapperDevice lin_eindex;
            elemp = elemTableDevice eindex;
            ep = eTableDevice eindex;
            curDisp = gather_curDisp elemp tm1Device;
            localForce = element_localForce ep curDisp
        in foldl (\<lambda>dev i. dev(lin_eindex * 8 + i := localForce ! i)) localForceDevice [0..<8])"

text \<open>\<^verbatim>\<open>rev_entry_t\<close> and its \<^verbatim>\<open>elements\<close>, as \<^verbatim>\<open>kernelStiffnessAddLocal\<close> reads them.\<close>

record rev_elem_t =
  elemid :: nat
  offset :: nat

record rev_entry_t =
  count :: nat
  elements :: "nat \<Rightarrow> rev_elem_t"

text \<open>
  \<^verbatim>\<open>kernelStiffnessAddLocal\<close>, thread \<open>node\<close> (the source's \<^verbatim>\<open>lnid\<close>): the new content
  of \<^verbatim>\<open>forceDevice\<close>.
\<close>

definition kernelStiffnessAddLocal ::
  "nat \<Rightarrow> (nat \<Rightarrow> rev_entry_t) \<Rightarrow> (nat \<Rightarrow> fvector_t) \<Rightarrow> (nat \<Rightarrow> fvector_t) \<Rightarrow> nat
     \<Rightarrow> (nat \<Rightarrow> fvector_t)" where
  "kernelStiffnessAddLocal nharbored' reverseLookupDevice localForceDevice forceDevice node =
     (if node \<ge> nharbored' then forceDevice
      else
        let revp = reverseLookupDevice node
        in forceDevice(node :=
             foldl (\<lambda>nodalForce i.
                      let noffset = offset (elements revp i);
                          localForce = elemid (elements revp i) * 8
                      in fvector_add nodalForce (localForceDevice (localForce + noffset)))
               (forceDevice node) [0..<count revp]))"

text \<open>
  Modelled from the spec: the launch of \<^verbatim>\<open>kernelStiffnessAddLocal\<close> after the one of
  \<^verbatim>\<open>kernelStiffnessCalcLocal\<close>. Its call site is not among the source files (``launch
  one independent task per mesh node; each reads the Reverse Adjacency Table entry for its
  node and sums the force contributions''). The launch of \<^verbatim>\<open>kernelStiffnessCalcLocal\<close> is
  the one of \<^verbatim>\<open>compute_addforce_effective_gpu\<close>. The result is \<^verbatim>\<open>forceDevice\<close>.
\<close>

definition stiffness_kernels ::
  "nat \<times> nat \<Rightarrow> nat \<times> nat \<Rightarrow> nat \<Rightarrow> (nat \<Rightarrow> nat) \<Rightarrow> mesh_t \<Rightarrow> (nat \<Rightarrow> e_t) \<Rightarrow> (nat \<Rightarrow> fvector_t)
     \<Rightarrow> (nat \<Rightarrow> rev_entry_t) \<Rightarrow> (nat \<Rightarrow> fvector_t) \<Rightarrow> (nat \<Rightarrow> fvector_t) \<Rightarrow> (nat \<Rightarrow> fvector_t)" where
  "stiffness_kernels calcGrid addGrid myLinearElementsCount myLinearElementsMapperDevice myMesh
       eTableDevice tm1Device reverseLookupDevice localForceDevice forceDevice =
     (let localForceDevice' =
            launch (fst calcGrid) (snd calcGrid)
              (kernelStiffnessCalcLocal myLinearElementsCount myLinearElementsMapperDevice
                 (elemTable myMesh) eTableDevice tm1Device)
              localForceDevice
      in launch (fst addGrid) (snd addGrid)
           (kernelStiffnessAddLocal (nharbored myMesh) reverseLookupDevice localForceDevice')
           forceDevice)"

text \<open>
  Modelled from the spec: the (element, corner) pairs that refer to a node, in the order
  of the elements and, within an element, of the corners (``for each node, the ordered
  list of (element, corner-offset-within-element) pairs that reference it''; ``every
  (element, corner) membership in the mesh appears in exactly one node's list'').
\<close>

definition node_references :: "mesh_t \<Rightarrow> nat \<Rightarrow> (nat \<times> nat) list" where
  "node_references myMesh node =
     concat (map (\<lambda>e. map (Pair e) (filter (\<lambda>i. lnid (elemTable myMesh e) i = node) [0..<8]))
       [0..<nat (lenum myMesh)])"

text \<open>
  Modelled from the spec: the Reverse Adjacency Table, whose construction is not among
  the source files (``Built once from the mesh topology''). A node's record holds the
  pairs of \<open>node_references\<close>, with the element's index in the mesh as \<^verbatim>\<open>elemid\<close>.
\<close>

definition reverseLookup :: "mesh_t \<Rightarrow> nat \<Rightarrow> rev_entry_t" where
  "reverseLookup myMesh node =
     \<lparr>count = length (node_references myMesh node),
      elements = (\<lambda>k. if k < length (node_references myMesh node)
                      then \<lparr>elemid = fst (node_references myMesh node ! k),
                            offset = snd (node_references myMesh node ! k)\<rparr>
                      else \<lparr>elemid = 0, offset = 0\<rparr>)\<rparr>"

text \<open>The entries of a node's record that \<^verbatim>\<open>kernelStiffnessAddLocal\<close> walks.\<close>

definition rev_entries :: "rev_entry_t \<Rightarrow> (nat \<times> nat) list" where
  "rev_entries revp = map (\<lambda>k. (elemid (elements revp k), offset (elements revp k))) [0..<count revp]"

text \<open>
  The corners of the force kernel's slices that hold a force for a node: slice \<open>s\<close> is
  the one thread \<open>s\<close> writes, for the element \<open>myLinearElementsMapper s\<close>.
\<close>

definition slice_references :: "nat \<Rightarrow> (nat \<Rightarrow> nat) \<Rightarrow> mesh_t \<Rightarrow> nat \<Rightarrow> (nat \<times> nat) list" where
  "slice_references myLinearElementsCount myLinearElementsMapper myMesh node =
     concat (map (\<lambda>s. map (Pair s)
                    (filter (\<lambda>i. lnid (elemTable myMesh (myLinearElementsMapper s)) i = node) [0..<8]))
       [0..<myLinearElementsCount])"

text \<open>
  A reverse table that lists, for every node, each corner of each slice that refers to
  the node, once.
\<close>

definition reverse_table_of_slices ::
  "nat \<Rightarrow> (nat \<Rightarrow> nat) \<Rightarrow> mesh_t \<Rightarrow> (nat \<Rightarrow> rev_entry_t) \<Rightarrow> bool" where
  "reverse_table_of_slices myLinearElementsCount myLinearElementsMapper myMesh reverseLookupDevice =
     (\<forall>node < nharbored myMesh.
        distinct (rev_entries (reverseLookupDevice node)) \<and>
        set (rev_entries (reverseLookupDevice node)) =
          set (slice_references myLinearElementsCount myLinearElementsMapper myMesh node))"


section \<open>The accelerator pipeline on the host side\<close>

text \<open>
  What a call of the accelerator's runtime returns: \<^verbatim>\<open>cudaSuccess\<close>, or an error, given here
  by the string \<^verbatim>\<open>cudaGetErrorString\<close> yields for it.
\<close>

datatype cudaError_t = cudaSuccess | cudaError string

text \<open>
  The runtime calls of \<^verbatim>\<open>stiffness_init\<close> and the result each one has: the model is
  told what the accelerator answers.
\<close>

record init_calls =
  malloc_mapper :: cudaError_t
  memcpy_mapper :: cudaError_t

text \<open>
  \<^verbatim>\<open>cudaMemcpy\<close> of \<open>n\<close> cells. A copy that fails is taken to leave the destination as
  it was.
\<close>

definition cudaMemcpy :: "cudaError_t \<Rightarrow> nat \<Rightarrow> (nat \<Rightarrow> 'a) \<Rightarrow> (nat \<Rightarrow> 'a) \<Rightarrow> (nat \<Rightarrow> 'a)" where
  "cudaMemcpy result n src dst =
     (if result = cudaSuccess then (\<lambda>i. if i < n then src i else dst i) else dst)"

text \<open>
  \<^verbatim>\<open>stiffness_init\<close>: the two selector passes, the allocation of the device's mapper and
  the copy to it. The result is \<^verbatim>\<open>myLinearElementsCount\<close>, \<^verbatim>\<open>myLinearElementsMapper\<close>
  and \<^verbatim>\<open>myLinearElementsMapperDevice\<close>; \<open>fresh\<close> and \<open>freshDevice\<close> are the contents of
  the storage the two allocations return. The choice of the block size
  (\<^verbatim>\<open>gpu_get_blocksize\<close>) and the byte counter are left out.
\<close>

definition stiffness_init ::
  "init_calls \<Rightarrow> nonlinear_predicate \<Rightarrow> mesh_t \<Rightarrow> (nat \<Rightarrow> nat) \<Rightarrow> (nat \<Rightarrow> nat)
     \<Rightarrow> fatal + nat \<times> (nat \<Rightarrow> nat) \<times> (nat \<Rightarrow> nat)" where
  "stiffness_init calls isThisElementNonLinear myMesh fresh freshDevice =
     (case linear_elements_count isThisElementNonLinear myMesh of
        Inl stop \<Rightarrow> Inl stop
      | Inr myLinearElementsCount \<Rightarrow>
          (case linear_elements_mapping isThisElementNonLinear myMesh myLinearElementsCount fresh of
             Inl stop \<Rightarrow> Inl stop
           | Inr myLinearElementsMapper \<Rightarrow>
               if malloc_mapper calls \<noteq> cudaSuccess
               then Inl (Abort ''Failed to allocate mapper memory'')
               else (case memcpy_mapper calls of
                       cudaError msg \<Rightarrow> Inl (Abort (''Failed to copy mapper to device - '' @ msg))
                     | cudaSuccess \<Rightarrow>
                         Inr (myLinearElementsCount, myLinearElementsMapper,
                              cudaMemcpy cudaSuccess myLinearElementsCount
                                myLinearElementsMapper freshDevice))))"

text \<open>The runtime calls of one step of \<^verbatim>\<open>compute_addforce_effective_gpu\<close>, in order.\<close>

record step_calls =
  memcpy_to_device :: cudaError_t
  kernel_launch :: cudaError_t
  memcpy_to_host :: cudaError_t

text \<open>
  The arrays in the accelerator's memory that a step works on: \<^verbatim>\<open>forceDevice\<close>, which
  the source reaches as \<^verbatim>\<open>mySolver->gpuData->forceDevice\<close>, and the arrays that
  \<^verbatim>\<open>kernelStiffnessCalcLocal\<close> takes as arguments.
\<close>

record gpu_data_t =
  forceDevice :: "nat \<Rightarrow> fvector_t"
  localForceDevice :: "nat \<Rightarrow> fvector_t"
  tm1Device :: "nat \<Rightarrow> fvector_t"
  eTableDevice :: "nat \<Rightarrow> e_t"
  elemTableDevice :: "nat \<Rightarrow> elem_t"

text \<open>
  The quotient of two \<^verbatim>\<open>int\<close> values in C, which truncates towards zero.
\<close>

definition c_div :: "int \<Rightarrow> int \<Rightarrow> int" where
  "c_div a b = sgn a * sgn b * (\<bar>a\<bar> div \<bar>b\<bar>)"

text \<open>
  \<^verbatim>\<open>compute_addforce_effective_gpu\<close>: the copy of the host's accumulator to
  \<^verbatim>\<open>forceDevice\<close>, the launch of \<^verbatim>\<open>kernelStiffnessCalcLocal\<close> on
  \<^verbatim>\<open>(lenum / blocksize) + 1\<close> blocks of \<^verbatim>\<open>calcForceBlockSize\<close> threads, and the copy of
  \<^verbatim>\<open>forceDevice\<close> back to the host's accumulator. It launches no other kernel. The source
  discards what the two \<^verbatim>\<open>cudaMemcpy\<close> calls return, clears the runtime's error state with
  \<^verbatim>\<open>cudaGetLastError()\<close> before the launch, and tests only the \<^verbatim>\<open>cudaGetLastError()\<close>
  that follows the launch; a launch that fails runs no thread, and neither does a grid
  without blocks.

  The launch hands the kernel the arrays inside one structure (\<^verbatim>\<open>gpuDataDevice\<close>), the
  kernel of the source files takes them one by one: the arguments here are the arrays of
  \<open>gpuData\<close>. \<^verbatim>\<open>myLinearElementsCount\<close>, \<^verbatim>\<open>myLinearElementsMapperDevice\<close> and
  \<^verbatim>\<open>calcForceBlockSize\<close> are the static variables that \<^verbatim>\<open>stiffness_init\<close> set; the block
  size is the positive number that \<^verbatim>\<open>gpu_get_blocksize\<close> chose. The result is the solver
  with its \<^verbatim>\<open>force\<close> array after the copy back, and the accelerator's arrays. The
  counters of \<^verbatim>\<open>gpu_spec\<close> are left out.
\<close>

definition compute_addforce_effective_gpu ::
  "step_calls \<Rightarrow> nat \<Rightarrow> nat \<Rightarrow> (nat \<Rightarrow> nat) \<Rightarrow> mesh_t \<Rightarrow> mysolver_t \<Rightarrow> gpu_data_t
     \<Rightarrow> fatal + mysolver_t \<times> gpu_data_t" where
  "compute_addforce_effective_gpu calls calcForceBlockSize myLinearElementsCount
       myLinearElementsMapperDevice myMesh mySolver gpuData =
     (let copied = gpuData\<lparr>forceDevice :=
            cudaMemcpy (memcpy_to_device calls) (nharbored myMesh) (force mySolver)
              (forceDevice gpuData)\<rparr>;
          blocksize = calcForceBlockSize;
          gridsize = c_div (lenum myMesh) (int blocksize) + 1
      in case kernel_launch calls of
           cudaError cerror \<Rightarrow> Inl (Abort (''Calc stiffness local kernel - '' @ cerror))
         | cudaSuccess \<Rightarrow>
             (let computed = copied\<lparr>localForceDevice :=
                    launch (nat gridsize) blocksize
                      (kernelStiffnessCalcLocal myLinearElementsCount myLinearElementsMapperDevice
                         (elemTableDevice copied) (eTableDevice copied) (tm1Device copied))
                      (localForceDevice copied)\<rparr>
              in Inr (mySolver\<lparr>force :=
                        cudaMemcpy (memcpy_to_host calls) (nharbored myMesh) (forceDevice computed)
                          (force mySolver)\<rparr>,
                      computed)))"


section \<open>Double arithmetic\<close>

text \<open>
  The embedding above computes with real numbers. Where a claim speaks of a result that
  is exactly zero, the rounding of \<^verbatim>\<open>double\<close> operations matters, and the operations are
  written out here: IEEE 754 binary64 with rounding to nearest, ties to even, for values
  in the normal range (no overflow, no subnormal numbers). A \<^verbatim>\<open>double\<close> is the real
  number it stands for.
\<close>

text \<open>The integer nearest to \<open>y\<close>, the even one of the two when \<open>y\<close> lies halfway.\<close>

definition round_to_even :: "real \<Rightarrow> int" where
  "round_to_even y =
     (let n = \<lfloor>y\<rfloor>; r = y - of_int n
      in if r < 1 / 2 then n else if 1 / 2 < r then n + 1 else if even n then n else n + 1)"

text \<open>
  The \<^verbatim>\<open>double\<close> nearest to \<open>x\<close>: a multiple of \<open>2\<^sup>e\<^sup>-\<^sup>5\<^sup>2\<close>, where \<open>2\<^sup>e \<le> |x| < 2\<^sup>e\<^sup>+\<^sup>1\<close>.
\<close>

definition double_round :: "real \<Rightarrow> real" where
  "double_round x =
     (if x = 0 then 0
      else let ulp = 2 powi (\<lfloor>log 2 \<bar>x\<bar>\<rfloor> - 52) in of_int (round_to_even (x / ulp)) * ulp)"

text \<open>\<^verbatim>\<open>x + y\<close> and \<^verbatim>\<open>x - y\<close> on \<^verbatim>\<open>double\<close> operands.\<close>

definition double_add :: "real \<Rightarrow> real \<Rightarrow> real" where
  "double_add x y = double_round (x + y)"

definition double_sub :: "real \<Rightarrow> real \<Rightarrow> real" where
  "double_sub x y = double_round (x - y)"

text \<open>\<^verbatim>\<open>x * y\<close> and \<^verbatim>\<open>x / y\<close> on \<^verbatim>\<open>double\<close> operands.\<close>

definition double_mul :: "real \<Rightarrow> real \<Rightarrow> real" where
  "double_mul x y = double_round (x * y)"

definition double_div :: "real \<Rightarrow> real \<Rightarrow> real" where
  "double_div x y = double_round (x / y)"

text \<open>
  A chain of additions and subtractions as the machine evaluates it, from left to right,
  each partial sum rounded: \<^verbatim>\<open>x - y + z\<close> is \<open>double_sum x [(Subtract, y), (Add, z)]\<close>.
  Negation of the first operand is exact.
\<close>

datatype sign = Add | Subtract

definition double_sum :: "real \<Rightarrow> (sign \<times> real) list \<Rightarrow> real" where
  "double_sum x ts =
     foldl (\<lambda>s t. case t of (Add, y) \<Rightarrow> double_add s y | (Subtract, y) \<Rightarrow> double_sub s y) x ts"

text \<open>
  The transform kernel with every operation rounded: the same assignments as
  \<open>aTransposeU_rows\<close>, \<open>firstVector\<close> and \<open>au_rows\<close>, in the order of evaluation that C
  gives them. The copies and reorderings (\<open>arrange\<close>, \<open>reformU\<close>, \<open>reformF\<close>) are exact.
\<close>

definition aTransposeU_rows_double :: "real list \<Rightarrow> real list" where
  "aTransposeU_rows_double u =
     [0,
      double_sum (- u ! 0) [(Subtract, u ! 1), (Subtract, u ! 2), (Subtract, u ! 3), (Add, u ! 4),
          (Add, u ! 5), (Add, u ! 6), (Add, u ! 7)],
      double_sum (- u ! 0) [(Subtract, u ! 1), (Add, u ! 2), (Add, u ! 3), (Subtract, u ! 4),
          (Subtract, u ! 5), (Add, u ! 6), (Add, u ! 7)],
      double_sum (- u ! 0) [(Add, u ! 1), (Subtract, u ! 2), (Add, u ! 3), (Subtract, u ! 4),
          (Add, u ! 5), (Subtract, u ! 6), (Add, u ! 7)],
      double_sum (u ! 0) [(Add, u ! 1), (Subtract, u ! 2), (Subtract, u ! 3), (Subtract, u ! 4),
          (Subtract, u ! 5), (Add, u ! 6), (Add, u ! 7)],
      double_sum (u ! 0) [(Subtract, u ! 1), (Add, u ! 2), (Subtract, u ! 3), (Subtract, u ! 4),
          (Add, u ! 5), (Subtract, u ! 6), (Add, u ! 7)],
      double_sum (u ! 0) [(Subtract, u ! 1), (Subtract, u ! 2), (Add, u ! 3), (Add, u ! 4),
          (Subtract, u ! 5), (Subtract, u ! 6), (Add, u ! 7)],
      double_sum (- u ! 0) [(Add, u ! 1), (Add, u ! 2), (Subtract, u ! 3), (Add, u ! 4),
          (Subtract, u ! 5), (Subtract, u ! 6), (Add, u ! 7)],
      0,
      double_sum (- u ! 8) [(Subtract, u ! 9), (Subtract, u ! 10), (Subtract, u ! 11), (Add, u ! 12),
          (Add, u ! 13), (Add, u ! 14), (Add, u ! 15)],
      double_sum (- u ! 8) [(Subtract, u ! 9), (Add, u ! 10), (Add, u ! 11), (Subtract, u ! 12),
          (Subtract, u ! 13), (Add, u ! 14), (Add, u ! 15)],
      double_sum (- u ! 8) [(Add, u ! 9), (Subtract, u ! 10), (Add, u ! 11), (Subtract, u ! 12),
          (Add, u ! 13), (Subtract, u ! 14), (Add, u ! 15)],
      double_sum (u ! 8) [(Add, u ! 9), (Subtract, u ! 10), (Subtract, u ! 11), (Subtract, u ! 12),
          (Subtract, u ! 13), (Add, u ! 14), (Add, u ! 15)],
      double_sum (u ! 8) [(Subtract, u ! 9), (Add, u ! 10), (Subtract, u ! 11), (Subtract, u ! 12),
          (Add, u ! 13), (Subtract, u ! 14), (Add, u ! 15)],
      double_sum (u ! 8) [(Subtract, u ! 9), (Subtract, u ! 10), (Add, u ! 11), (Add, u ! 12),
          (Subtract, u ! 13), (Subtract, u ! 14), (Add, u ! 15)],
      double_sum (- u ! 8) [(Add, u ! 9), (Add, u ! 10), (Subtract, u ! 11), (Add, u ! 12),
          (Subtract, u ! 13), (Subtract, u ! 14), (Add, u ! 15)],
      0,
      double_sum (- u ! 16) [(Subtract, u ! 17), (Subtract, u ! 18), (Subtract, u ! 19), (Add, u ! 20),
          (Add, u ! 21), (Add, u ! 22), (Add, u ! 23)],
      double_sum (- u ! 16) [(Subtract, u ! 17), (Add, u ! 18), (Add, u ! 19), (Subtract, u ! 20),
          (Subtract, u ! 21), (Add, u ! 22), (Add, u ! 23)],
      double_sum (- u ! 16) [(Add, u ! 17), (Subtract, u ! 18), (Add, u ! 19), (Subtract, u ! 20),
          (Add, u ! 21), (Subtract, u ! 22), (Add, u ! 23)],
      double_sum (u ! 16) [(Add, u ! 17), (Subtract, u ! 18), (Subtract, u ! 19), (Subtract, u ! 20),
          (Subtract, u ! 21), (Add, u ! 22), (Add, u ! 23)],
      double_sum (u ! 16) [(Subtract, u ! 17), (Add, u ! 18), (Subtract, u ! 19), (Subtract, u ! 20),
          (Add, u ! 21), (Subtract, u ! 22), (Add, u ! 23)],
      double_sum (u ! 16) [(Subtract, u ! 17), (Subtract, u ! 18), (Add, u ! 19), (Add, u ! 20),
          (Subtract, u ! 21), (Subtract, u ! 22), (Add, u ! 23)],
      double_sum (- u ! 16) [(Add, u ! 17), (Add, u ! 18), (Subtract, u ! 19), (Add, u ! 20),
          (Subtract, u ! 21), (Subtract, u ! 22), (Add, u ! 23)]]"

definition aTransposeU_double :: "fvector_t list \<Rightarrow> real list" where
  "aTransposeU_double un = (let temp = arrange un; u = reformU temp in aTransposeU_rows_double u)"

definition firstVector_double :: "real list \<Rightarrow> real \<Rightarrow> real \<Rightarrow> real \<Rightarrow> real list" where
  "firstVector_double atu a c b =
     [0,
      double_mul b (double_add (atu ! 19) (atu ! 1)),
      double_mul b (double_add (atu ! 11) (atu ! 2)),
      double_add (double_mul a (atu ! 3)) (double_mul c (double_add (atu ! 10) (atu ! 17))),
      double_div (double_mul b (double_add (double_add (atu ! 13) (atu ! 22)) (double_mul 2 (atu ! 4)))) 3,
      double_div (double_add (double_mul (double_add a b) (atu ! 5)) (double_mul c (atu ! 12))) 3,
      double_div (double_add (double_mul (double_add a b) (atu ! 6)) (double_mul c (atu ! 20))) 3,
      double_div (double_mul (double_add a (double_mul 2 b)) (atu ! 7)) 9,
      0,
      double_mul b (double_add (atu ! 18) (atu ! 9)),
      double_add (double_mul a (atu ! 10)) (double_mul c (double_add (atu ! 3) (atu ! 17))),
      double_mul b (double_add (atu ! 11) (atu ! 2)),
      double_div (double_add (double_mul (double_add a b) (atu ! 12)) (double_mul c (atu ! 5))) 3,
      double_div (double_mul b (double_add (double_add (atu ! 4) (atu ! 22)) (double_mul 2 (atu ! 13)))) 3,
      double_div (double_add (double_mul (double_add a b) (atu ! 14)) (double_mul c (atu ! 21))) 3,
      double_div (double_mul (double_add a (double_mul 2 b)) (atu ! 15)) 9,
      0,
      double_add (double_mul a (atu ! 17)) (double_mul c (double_add (atu ! 3) (atu ! 10))),
      double_mul b (double_add (atu ! 18) (atu ! 9)),
      double_mul b (double_add (atu ! 19) (atu ! 1)),
      double_div (double_add (double_mul (double_add a b) (atu ! 20)) (double_mul c (atu ! 6))) 3,
      double_div (double_add (double_mul (double_add a b) (atu ! 21)) (double_mul c (atu ! 14))) 3,
      double_div (double_mul b (double_add (double_add (atu ! 4) (atu ! 13)) (double_mul 2 (atu ! 22)))) 3,
      double_div (double_mul (double_add a (double_mul 2 b)) (atu ! 23)) 9]"

definition au_rows_double :: "real list \<Rightarrow> real list" where
  "au_rows_double u =
     [double_sum (u ! 0) [(Subtract, u ! 1), (Subtract, u ! 2), (Subtract, u ! 3), (Add, u ! 4),
          (Add, u ! 5), (Add, u ! 6), (Subtract, u ! 7)],
      double_sum (u ! 0) [(Subtract, u ! 1), (Subtract, u ! 2), (Add, u ! 3), (Add, u ! 4),
          (Subtract, u ! 5), (Subtract, u ! 6), (Add, u ! 7)],
      double_sum (u ! 0) [(Subtract, u ! 1), (Add, u ! 2), (Subtract, u ! 3), (Subtract, u ! 4),
          (Add, u ! 5), (Subtract, u ! 6), (Add, u ! 7)],
      double_sum (u ! 0) [(Subtract, u ! 1), (Add, u ! 2), (Add, u ! 3), (Subtract, u ! 4),
          (Subtract, u ! 5), (Add, u ! 6), (Subtract, u ! 7)],
      double_sum (u ! 0) [(Add, u ! 1), (Subtract, u ! 2), (Subtract, u ! 3), (Subtract, u ! 4),
          (Subtract, u ! 5), (Add, u ! 6), (Add, u ! 7)],
      double_sum (u ! 0) [(Add, u ! 1), (Subtract, u ! 2), (Add, u ! 3), (Subtract, u ! 4),
          (Add, u ! 5), (Subtract, u ! 6), (Subtract, u ! 7)],
      double_sum (u ! 0) [(Add, u ! 1), (Add, u ! 2), (Subtract, u ! 3), (Add, u ! 4),
          (Subtract, u ! 5), (Subtract, u ! 6), (Subtract, u ! 7)],
      double_sum (u ! 0) [(Add, u ! 1), (Add, u ! 2), (Add, u ! 3), (Add, u ! 4),
          (Add, u ! 5), (Add, u ! 6), (Add, u ! 7)],
      double_sum (u ! 8) [(Subtract, u ! 9), (Subtract, u ! 10), (Subtract, u ! 11), (Add, u ! 12),
          (Add, u ! 13), (Add, u ! 14), (Subtract, u ! 15)],
      double_sum (u ! 8) [(Subtract, u ! 9), (Subtract, u ! 10), (Add, u ! 11), (Add, u ! 12),
          (Subtract, u ! 13), (Subtract, u ! 14), (Add, u ! 15)],
      double_sum (u ! 8) [(Subtract, u ! 9), (Add, u ! 10), (Subtract, u ! 11), (Subtract, u ! 12),
          (Add, u ! 13), (Subtract, u ! 14), (Add, u ! 15)],
      double_sum (u ! 8) [(Subtract, u ! 9), (Add, u ! 10), (Add, u ! 11), (Subtract, u ! 12),
          (Subtract, u ! 13), (Add, u ! 14), (Subtract, u ! 15)],
      double_sum (u ! 8) [(Add, u ! 9), (Subtract, u ! 10), (Subtract, u ! 11), (Subtract, u ! 12),
          (Subtract, u ! 13), (Add, u ! 14), (Add, u ! 15)],
      double_sum (u ! 8) [(Add, u ! 9), (Subtract, u ! 10), (Add, u ! 11), (Subtract, u ! 12),
          (Add, u ! 13), (Subtract, u ! 14), (Subtract, u ! 15)],
      double_sum (u ! 8) [(Add, u ! 9), (Add, u ! 10), (Subtract, u ! 11), (Add, u ! 12),
          (Subtract, u ! 13), (Subtract, u ! 14), (Subtract, u ! 15)],
      double_sum (u ! 8) [(Add, u ! 9), (Add, u ! 10), (Add, u ! 11), (Add, u ! 12),
          (Add, u ! 13), (Add, u ! 14), (Add, u ! 15)],
      double_sum (u ! 16) [(Subtract, u ! 17), (Subtract, u ! 18), (Subtract, u ! 19), (Add, u ! 20),
          (Add, u ! 21), (Add, u ! 22), (Subtract, u ! 23)],
      double_sum (u ! 16) [(Subtract, u ! 17), (Subtract, u ! 18), (Add, u ! 19), (Add, u ! 20),
          (Subtract, u ! 21), (Subtract, u ! 22), (Add, u ! 23)],
      double_sum (u ! 16) [(Subtract, u ! 17), (Add, u ! 18), (Subtract, u ! 19), (Subtract, u ! 20),
          (Add, u ! 21), (Subtract, u ! 22), (Add, u ! 23)],
      double_sum (u ! 16) [(Subtract, u ! 17), (Add, u ! 18), (Add, u ! 19), (Subtract, u ! 20),
          (Subtract, u ! 21), (Add, u ! 22), (Subtract, u ! 23)],
      double_sum (u ! 16) [(Add, u ! 17), (Subtract, u ! 18), (Subtract, u ! 19), (Subtract, u ! 20),
          (Subtract, u ! 21), (Add, u ! 22), (Add, u ! 23)],
      double_sum (u ! 16) [(Add, u ! 17), (Subtract, u ! 18), (Add, u ! 19), (Subtract, u ! 20),
          (Add, u ! 21), (Subtract, u ! 22), (Subtract, u ! 23)],
      double_sum (u ! 16) [(Add, u ! 17), (Add, u ! 18), (Subtract, u ! 19), (Add, u ! 20),
          (Subtract, u ! 21), (Subtract, u ! 22), (Subtract, u ! 23)],
      double_sum (u ! 16) [(Add, u ! 17), (Add, u ! 18), (Add, u ! 19), (Add, u ! 20),
          (Add, u ! 21), (Add, u ! 22), (Add, u ! 23)]]"

definition au_double :: "fvector_t list \<Rightarrow> real list \<Rightarrow> fvector_t list" where
  "au_double resVec u =
     (let finVec = au_rows_double u; temp = reformF finVec
      in map (\<lambda>j. fvector (double_add (f0 (resVec ! j)) (temp ! (j * 3 + 0)))
                         (double_add (f1 (resVec ! j)) (temp ! (j * 3 + 1)))
                         (double_add (f2 (resVec ! j)) (temp ! (j * 3 + 2)))) [0..<8])"

text \<open>
  \<^verbatim>\<open>vector_is_zero\<close> compares with the \<^verbatim>\<open>double\<close> that the literal \<^verbatim>\<open>1e-20\<close> denotes.
\<close>

definition vector_is_zero_double :: "fvector_t list \<Rightarrow> int" where
  "vector_is_zero_double v =
     (if list_ex (\<lambda>i. list_ex (\<lambda>j. \<bar>f_at (v ! i) j\<bar> > double_round UNDERFLOW_CAP_STIFFNESS)
           [0..<3]) [0..<8]
      then 1 else 0)"

text \<open>
  The shared block of \<open>element_localForce\<close> with every operation rounded. The literal
  \<^verbatim>\<open>-0.5625\<close> is a \<^verbatim>\<open>double\<close>, and \<^verbatim>\<open>2 * ep->c1\<close> multiplies by the \<^verbatim>\<open>double\<close> 2.
\<close>

definition element_localForce_double :: "e_t \<Rightarrow> fvector_t list \<Rightarrow> fvector_t list" where
  "element_localForce_double ep curDisp =
     (let localForce = replicate 8 (fvector 0 0 0)
      in if vector_is_zero_double curDisp \<noteq> 0
         then (let first_coeff = double_mul (- 0.5625) (double_add (c2 ep) (double_mul 2 (c1 ep)));
                   second_coeff = double_mul (- 0.5625) (c2 ep);
                   third_coeff = double_mul (- 0.5625) (c1 ep);
                   atu = aTransposeU_double curDisp;
                   firstVec = firstVector_double atu first_coeff second_coeff third_coeff
               in au_double localForce firstVec)
         else localForce)"


section \<open>Sums of force vectors\<close>

text \<open>
  Force vectors under \<open>fvector_add\<close> form a commutative monoid with the zero vector that
  \<^verbatim>\<open>memset\<close> writes; the totals below are sums in it.
\<close>

instantiation fvector_t :: comm_monoid_add
begin

definition zero_fvector_t :: fvector_t where
  "zero_fvector_t = fvector 0 0 0"

definition plus_fvector_t :: "fvector_t \<Rightarrow> fvector_t \<Rightarrow> fvector_t" where
  "plus_fvector_t = fvector_add"

instance
proof
  fix a b c :: fvector_t
  show "a + b + c = a + (b + c)"
    by (simp add: plus_fvector_t_def fvector_add_def)
  show "a + b = b + a"
    by (simp add: plus_fvector_t_def fvector_add_def)
  show "0 + a = a"
    by (simp add: plus_fvector_t_def zero_fvector_t_def fvector_add_def)
qed

end

text \<open>
  The force that the element of slice \<open>s\<close> has at its corner \<open>i\<close>: the content of
  \<^verbatim>\<open>localForce[i]\<close> when the shared block has run for the element \<open>mapper s\<close>.
\<close>

definition slice_force ::
  "(nat \<Rightarrow> nat) \<Rightarrow> (nat \<Rightarrow> elem_t) \<Rightarrow> (nat \<Rightarrow> e_t) \<Rightarrow> (nat \<Rightarrow> fvector_t) \<Rightarrow> nat \<times> nat \<Rightarrow> fvector_t" where
  "slice_force mapper elemTab eTab disp = (\<lambda>(s, i).
     element_localForce (eTab (mapper s)) (gather_curDisp (elemTab (mapper s)) disp) ! i)"

text \<open>What the gather loop of \<^verbatim>\<open>kernelStiffnessAddLocal\<close> adds to a node's entry.\<close>

definition gathered :: "(nat \<Rightarrow> fvector_t) \<Rightarrow> rev_entry_t \<Rightarrow> fvector_t" where
  "gathered dev revp = sum_list (map (\<lambda>(e, noffset). dev (e * 8 + noffset)) (rev_entries revp))"

section \<open>Example inputs\<close>

text \<open>A mesh of three elements; only its element count matters to the selector.\<close>

definition three_elements :: mesh_t where
  "three_elements = \<lparr>lenum = 3, nharbored = 0, elemTable = (\<lambda>_. \<lparr>lnid = (\<lambda>i. i)\<rparr>)\<rparr>"

text \<open>A mesh structure whose element count is negative.\<close>

definition negative_lenum :: mesh_t where
  "negative_lenum = \<lparr>lenum = - 1, nharbored = 0, elemTable = (\<lambda>_. \<lparr>lnid = (\<lambda>i. i)\<rparr>)\<rparr>"


text \<open>
  Two cubes with no node in common: element \<open>e\<close> has the nodes \<open>8e, \<dots>, 8e + 7\<close>.
\<close>

definition two_cubes :: mesh_t where
  "two_cubes = \<lparr>lenum = 2, nharbored = 16, elemTable = (\<lambda>e. \<lparr>lnid = (\<lambda>i. e * 8 + i)\<rparr>)\<rparr>"

text \<open>
  A solver state on the two cubes: \<open>c1 = 2\<close> and \<open>c2 = 1\<close> everywhere, a displacement of 1
  along the first axis at node 8 (corner 0 of element 1) and none elsewhere, no force yet.
\<close>

definition node8_x :: mysolver_t where
  "node8_x = \<lparr>eTable = (\<lambda>_. \<lparr>c1 = 2, c2 = 1\<rparr>),
              tm1 = (\<lambda>n. if n = 8 then fvector 1 0 0 else fvector 0 0 0),
              force = (\<lambda>_. fvector 0 0 0)\<rparr>"

text \<open>
  The mapper the selector builds on the two cubes when element 0 is nonlinear and
  element 1 is not: its one cell holds 1.
\<close>

definition second_cube_only :: "nat \<Rightarrow> nat" where
  "second_cube_only = (\<lambda>_. 7)(0 := 1)"

text \<open>
  A reverse table for that mapper, by slices: the nodes of element 1 refer to slice 0,
  the nodes of element 0 to nothing.
\<close>

definition second_cube_table :: "nat \<Rightarrow> rev_entry_t" where
  "second_cube_table node =
     (if 8 \<le> node \<and> node < 16
      then \<lparr>count = 1, elements = (\<lambda>_. \<lparr>elemid = 0, offset = node - 8\<rparr>)\<rparr>
      else \<lparr>count = 0, elements = (\<lambda>_. \<lparr>elemid = 0, offset = 0\<rparr>)\<rparr>)"

text \<open>The eight displacements of a cube whose corner 0 moved by 1 along the first axis.\<close>

definition corner0_x :: "fvector_t list" where
  "corner0_x = [fvector 1 0 0, fvector 0 0 0, fvector 0 0 0, fvector 0 0 0,
                fvector 0 0 0, fvector 0 0 0, fvector 0 0 0, fvector 0 0 0]"


text \<open>
  A solver state on the two cubes whose displacements all lie below the underflow cap.
\<close>

definition tiny :: mysolver_t where
  "tiny = \<lparr>eTable = (\<lambda>_. \<lparr>c1 = 2, c2 = 1\<rparr>),
           tm1 = (\<lambda>n. if n = 8 then fvector (1 / 10 ^ 21) 0 0 else fvector 0 (- (1 / 10 ^ 22)) 0),
           force = (\<lambda>n. fvector 1 2 3)\<rparr>"

text \<open>Two arrays of 24 scalars.\<close>

definition one_to_24 :: "real list" where
  "one_to_24 = [1, 2, 3, 4, 5, 6, 7, 8, 9, 10, 11, 12, 13, 14, 15, 16, 17, 18, 19, 20, 21, 22, 23, 24]"

definition second_only :: "real list" where
  "second_only = [0, 1, 0, 0, 0, 0, 0, 0, 0, 0, 0, 0, 0, 0, 0, 0, 0, 0, 0, 0, 0, 0, 0, 0]"


text \<open>
  The answers of the runtime in a step where both copies fail and the launch succeeds.
\<close>

definition copies_fail :: step_calls where
  "copies_fail = \<lparr>memcpy_to_device = cudaError ''unspecified launch failure'',
                  kernel_launch = cudaSuccess,
                  memcpy_to_host = cudaError ''unspecified launch failure''\<rparr>"



section \<open>The selector's loops\<close>

lemma count_step_eq:
  "count_step p m k e = (if p m e then k else Suc k)"
  by (simp add: count_step_def)

lemma count_loop:
  "foldl (count_step p m) k xs = k + length (filter (\<lambda>e. \<not> p m e) xs)"
  by (induction xs arbitrary: k) (simp_all add: count_step_eq)

lemma mapping_step_eq:
  "mapping_step p m (a, k) e = (if p m e then (a, k) else (a(k := e), Suc k))"
  by (simp add: mapping_step_def)

lemma count_loop_total:
  "foldl (count_step p m) 0 [0..<nat (lenum m)] = length (linear_indices p m)"
  by (simp add: count_loop linear_indices_def)

lemma length_linear_indices: "length (linear_indices p m) \<le> nat (lenum m)"
proof -
  have "length (linear_indices p m) \<le> length [0..<nat (lenum m)]"
    unfolding linear_indices_def by (rule length_filter_le)
  then show ?thesis by simp
qed

text \<open>
  The count exceeds \<^verbatim>\<open>lenum\<close> exactly when \<^verbatim>\<open>lenum\<close> is negative: the loop counts at most
  the elements it visits.
\<close>

lemma count_exceeds_iff:
  "int (length (linear_indices p m)) > lenum m \<longleftrightarrow> lenum m < 0"
  using length_linear_indices [of p m] by linarith

lemma linear_elements_count_eq:
  "linear_elements_count p m =
     (if lenum m < 0 then Inl (Abort ''linear_elements_count: more elements than expected'')
      else Inr (length (linear_indices p m)))"
  using count_exceeds_iff [of m p]
  by (simp add: linear_elements_count_def count_loop_total Let_def)

lemma cells_Suc: "cells a (Suc n) = cells a n @ [a n]"
  by (simp add: cells_def)

lemma cells_upd_above: "n \<le> k \<Longrightarrow> cells (a(k := x)) n = cells a n"
  by (simp add: cells_def)

lemma length_cells: "length (cells a n) = n"
  by (simp add: cells_def)

lemma nth_cells: "i < n \<Longrightarrow> cells a n ! i = a i"
  by (simp add: cells_def)

text \<open>
  The filling loop appends the linear indices of the range it walks to the cells it has
  already filled, and leaves the cells below \<open>k\<close> alone.
\<close>

lemma mapping_loop:
  assumes "foldl (mapping_step p m) (a, k) xs = (a', k')"
  shows "k' = k + length (filter (\<lambda>e. \<not> p m e) xs)"
    and "cells a' k' = cells a k @ filter (\<lambda>e. \<not> p m e) xs"
  using assms
proof (induction xs arbitrary: a k)
  case Nil
  {
    case 1
    then show ?case by simp
  next
    case 2
    then show ?case by simp
  }
next
  case (Cons x xs)
  {
    case 1
    show ?case
    proof (cases "p m x")
      case True
      with 1 have "foldl (mapping_step p m) (a, k) xs = (a', k')"
        by (simp add: mapping_step_eq)
      from Cons.IH(1) [OF this] True show ?thesis by simp
    next
      case False
      with 1 have "foldl (mapping_step p m) (a(k := x), Suc k) xs = (a', k')"
        by (simp add: mapping_step_eq)
      from Cons.IH(1) [OF this] False show ?thesis by simp
    qed
  next
    case 2
    show ?case
    proof (cases "p m x")
      case True
      with 2 have "foldl (mapping_step p m) (a, k) xs = (a', k')"
        by (simp add: mapping_step_eq)
      from Cons.IH(2) [OF this] True show ?thesis by simp
    next
      case False
      with 2 have "foldl (mapping_step p m) (a(k := x), Suc k) xs = (a', k')"
        by (simp add: mapping_step_eq)
      from Cons.IH(2) [OF this]
      have "cells a' k' = cells (a(k := x)) (Suc k) @ filter (\<lambda>e. \<not> p m e) xs" .
      also have "cells (a(k := x)) (Suc k) = cells a k @ [x]"
        by (simp add: cells_Suc cells_upd_above)
      finally show ?thesis using False by simp
    qed
  }
qed

lemma mapping_loop_total:
  assumes "foldl (mapping_step p m) (a, 0) [0..<nat (lenum m)] = (a', k')"
  shows "k' = length (linear_indices p m)" and "cells a' k' = linear_indices p m"
  using mapping_loop [OF assms] by (simp_all add: linear_indices_def cells_def)

lemma linear_elements_mapping_cases:
  obtains a' where
    "foldl (mapping_step p m) (a, 0) [0..<nat (lenum m)] = (a', length (linear_indices p m))"
    "cells a' (length (linear_indices p m)) = linear_indices p m"
proof -
  obtain a' k' where run: "foldl (mapping_step p m) (a, 0) [0..<nat (lenum m)] = (a', k')"
    by (cases "foldl (mapping_step p m) (a, 0) [0..<nat (lenum m)]")
  from mapping_loop_total [OF run] run that show thesis by simp
qed

lemma linear_elements_mapping_aborts_iff:
  "(\<exists>msg. linear_elements_mapping p m n a = Inl msg) \<longleftrightarrow> length (linear_indices p m) \<noteq> n"
proof -
  obtain a' where
    "foldl (mapping_step p m) (a, 0) [0..<nat (lenum m)] = (a', length (linear_indices p m))"
    by (rule linear_elements_mapping_cases)
  then show ?thesis by (simp add: linear_elements_mapping_def)
qed

lemma linear_elements_mapping_result:
  assumes "linear_elements_mapping p m n a = Inr mapper"
  shows "n = length (linear_indices p m)" and "cells mapper n = linear_indices p m"
proof -
  obtain a' where run:
    "foldl (mapping_step p m) (a, 0) [0..<nat (lenum m)] = (a', length (linear_indices p m))"
    and filled: "cells a' (length (linear_indices p m)) = linear_indices p m"
    by (rule linear_elements_mapping_cases)
  from assms run have "n = length (linear_indices p m) \<and> mapper = a'"
    by (simp add: linear_elements_mapping_def split: if_splits)
  with filled show "n = length (linear_indices p m)" and "cells mapper n = linear_indices p m"
    by simp_all
qed

lemma sorted_linear_indices: "sorted (linear_indices p m)" "distinct (linear_indices p m)"
  by (simp_all add: linear_indices_def sorted_wrt_filter)


lemma set_linear_indices: "set (linear_indices p m) = {e. int e < lenum m \<and> \<not> p m e}"
  by (auto simp: linear_indices_def)

lemma linear_indices_all_nonlinear:
  assumes "\<forall>e<nat (lenum m). p m e"
  shows "linear_indices p m = []"
  using assms by (simp add: linear_indices_def)

lemma linear_indices_none_nonlinear:
  assumes "\<forall>e<nat (lenum m). \<not> p m e"
  shows "linear_indices p m = [0..<nat (lenum m)]"
proof -
  have "\<forall>e\<in>set [0..<nat (lenum m)]. \<not> p m e"
    using assms by simp
  then show ?thesis
    unfolding linear_indices_def by (simp only: filter_True)
qed


section \<open>Claims about the element selector\<close>

text \<open>
  C5. When the two passes of the selector have run (\<open>linear_elements_count\<close> stored
  \<open>n\<close>, \<open>linear_elements_mapping\<close> returned the mapper), the first \<open>n\<close> cells of the
  mapper are exactly the indices of the elements whose nonlinear predicate is false, in
  ascending order and without repetition; \<open>n\<close> is at most the element count; if every
  element is nonlinear the mapping is empty, and if none is, it is \<open>0, 1, \<dots>, lenum - 1\<close>.
\<close>

theorem selector_mapping_is_linear_indices:
  assumes "linear_elements_count p m = Inr n"
    and "linear_elements_mapping p m n fresh = Inr mapper"
  shows "cells mapper n = filter (\<lambda>e. \<not> p m e) [0..<nat (lenum m)]
       \<and> set (cells mapper n) = {e. int e < lenum m \<and> \<not> p m e}
       \<and> sorted (cells mapper n) \<and> distinct (cells mapper n)
       \<and> int n \<le> lenum m
       \<and> ((\<forall>e<nat (lenum m). p m e) \<longrightarrow> n = 0)
       \<and> ((\<forall>e<nat (lenum m). \<not> p m e) \<longrightarrow>
            int n = lenum m \<and> cells mapper n = [0..<nat (lenum m)])"
proof -
  from assms(1) have count: "0 \<le> lenum m"
    by (simp add: linear_elements_count_eq split: if_splits)
  from linear_elements_mapping_result [OF assms(2)]
  have n: "n = length (linear_indices p m)" and filled: "cells mapper n = linear_indices p m"
    by simp_all
  have "cells mapper n = filter (\<lambda>e. \<not> p m e) [0..<nat (lenum m)]"
    using filled by (simp add: linear_indices_def)
  moreover have "set (cells mapper n) = {e. int e < lenum m \<and> \<not> p m e}"
    using filled by (simp add: set_linear_indices)
  moreover have "sorted (cells mapper n)" "distinct (cells mapper n)"
    using filled by (simp_all add: sorted_linear_indices)
  moreover have "int n \<le> lenum m"
    using n count length_linear_indices [of p m] by linarith
  moreover have "(\<forall>e<nat (lenum m). p m e) \<longrightarrow> n = 0"
    using n by (simp add: linear_indices_all_nonlinear)
  moreover have "(\<forall>e<nat (lenum m). \<not> p m e) \<longrightarrow>
      int n = lenum m \<and> cells mapper n = [0..<nat (lenum m)]"
  proof
    assume "\<forall>e<nat (lenum m). \<not> p m e"
    then have "linear_indices p m = [0..<nat (lenum m)]"
      by (rule linear_indices_none_nonlinear)
    with n filled count show "int n = lenum m \<and> cells mapper n = [0..<nat (lenum m)]"
      by simp
  qed
  ultimately show ?thesis by blast
qed

lemma upt_3: "[0..<3] = [0, 1, 2::nat]"
  by (simp add: upt_rec)

theorem selector_mapping_is_linear_indices_witness:
  "linear_elements_count (\<lambda>_ e. e = 1) three_elements = Inr 2
   \<and> linear_elements_mapping (\<lambda>_ e. e = 1) three_elements 2 (\<lambda>_. 7) = Inr ((\<lambda>_. 7)(0 := 0, 1 := 2))
   \<and> cells ((\<lambda>_. 7)(0 := 0, 1 := 2)) 2 = [0, 2::nat]
   \<and> linear_elements_count (\<lambda>_ _. True) three_elements = Inr 0
   \<and> linear_elements_mapping (\<lambda>_ _. True) three_elements 0 (\<lambda>_. 7) = Inr (\<lambda>_. 7)
   \<and> cells (\<lambda>_. 7 :: nat) 0 = []
   \<and> linear_elements_count (\<lambda>_ _. False) three_elements = Inr 3
   \<and> linear_elements_mapping (\<lambda>_ _. False) three_elements 3 (\<lambda>_. 7)
        = Inr ((\<lambda>_. 7)(0 := 0, 1 := 1, 2 := 2))
   \<and> cells ((\<lambda>_. 7)(0 := 0, 1 := 1, 2 := 2)) 3 = [0, 1, 2::nat]"
proof -
  have c1: "linear_elements_count (\<lambda>_ e. e = 1) three_elements = Inr 2"
    by (simp add: linear_elements_count_def count_step_eq three_elements_def upt_3)
  have m1: "linear_elements_mapping (\<lambda>_ e. e = 1) three_elements 2 (\<lambda>_. 7)
      = Inr ((\<lambda>_. 7)(0 := 0, 1 := 2))"
    by (simp add: linear_elements_mapping_def mapping_step_eq three_elements_def upt_3)
  have c2: "linear_elements_count (\<lambda>_ _. True) three_elements = Inr 0"
    by (simp add: linear_elements_count_def count_step_eq three_elements_def upt_3)
  have m2: "linear_elements_mapping (\<lambda>_ _. True) three_elements 0 (\<lambda>_. 7) = Inr (\<lambda>_. 7)"
    by (simp add: linear_elements_mapping_def mapping_step_eq three_elements_def upt_3)
  have c3: "linear_elements_count (\<lambda>_ _. False) three_elements = Inr 3"
    by (simp add: linear_elements_count_def count_step_eq three_elements_def upt_3)
  have m3: "linear_elements_mapping (\<lambda>_ _. False) three_elements 3 (\<lambda>_. 7)
      = Inr ((\<lambda>_. 7)(0 := 0, 1 := 1, 2 := 2))"
    by (simp add: linear_elements_mapping_def mapping_step_eq three_elements_def upt_3
        numeral_2_eq_2)
  have "cells ((\<lambda>_. 7)(0 := 0, 1 := 2)) 2 = [0, 2::nat]"
    using selector_mapping_is_linear_indices [OF c1 m1]
    by (simp add: three_elements_def upt_3)
  moreover have "cells (\<lambda>_. 7 :: nat) 0 = []"
    using selector_mapping_is_linear_indices [OF c2 m2]
    by (simp add: three_elements_def upt_3)
  moreover have "cells ((\<lambda>_. 7)(0 := 0, 1 := 1, 2 := 2)) 3 = [0, 1, 2::nat]"
    using selector_mapping_is_linear_indices [OF c3 m3]
    by (simp add: three_elements_def upt_3)
  ultimately show ?thesis
    using c1 m1 c2 m2 c3 m3 by simp
qed

text \<open>
  C6, as amended. \<open>linear_elements_count\<close> aborts exactly when the number of elements with
  a false predicate exceeds \<^verbatim>\<open>lenum\<close>, and that is exactly when \<^verbatim>\<open>lenum\<close> is negative:
  the loop then visits no element and the count 0 exceeds it. \<open>linear_elements_mapping\<close>
  aborts exactly when the number it fills differs from the count \<open>n\<close> it is given. For
  every mesh whose \<^verbatim>\<open>lenum\<close> is not negative, with the same predicate in both passes,
  the two operations complete.
\<close>

theorem selector_aborts_iff:
  "((\<exists>msg. linear_elements_count p m = Inl msg) \<longleftrightarrow>
      int (length (filter (\<lambda>e. \<not> p m e) [0..<nat (lenum m)])) > lenum m)
   \<and> ((\<exists>msg. linear_elements_count p m = Inl msg) \<longleftrightarrow> lenum m < 0)
   \<and> ((\<exists>msg. linear_elements_mapping p m n fresh = Inl msg) \<longleftrightarrow>
      length (filter (\<lambda>e. \<not> p m e) [0..<nat (lenum m)]) \<noteq> n)
   \<and> (0 \<le> lenum m \<longrightarrow>
        (\<exists>k mapper. linear_elements_count p m = Inr k
           \<and> linear_elements_mapping p m k fresh = Inr mapper))"
proof -
  let ?k = "length (linear_indices p m)"
  have negative: "(\<exists>msg. linear_elements_count p m = Inl msg) \<longleftrightarrow> lenum m < 0"
    by (simp add: linear_elements_count_eq)
  have first: "(\<exists>msg. linear_elements_count p m = Inl msg) \<longleftrightarrow>
      int (length (filter (\<lambda>e. \<not> p m e) [0..<nat (lenum m)])) > lenum m"
    using negative count_exceeds_iff [of m p] by (simp only: linear_indices_def)
  have second: "(\<exists>msg. linear_elements_mapping p m n fresh = Inl msg) \<longleftrightarrow>
      length (filter (\<lambda>e. \<not> p m e) [0..<nat (lenum m)]) \<noteq> n"
    using linear_elements_mapping_aborts_iff [of p m n fresh]
    by (simp add: linear_indices_def)
  have "\<not> (\<exists>msg. linear_elements_mapping p m ?k fresh = Inl msg)"
    using linear_elements_mapping_aborts_iff [of p m ?k fresh] by simp
  then obtain mapper where "linear_elements_mapping p m ?k fresh = Inr mapper"
    by (cases "linear_elements_mapping p m ?k fresh") auto
  then have third: "0 \<le> lenum m \<longrightarrow>
      (\<exists>k mapper. linear_elements_count p m = Inr k
         \<and> linear_elements_mapping p m k fresh = Inr mapper)"
    by (auto simp: linear_elements_count_eq)
  from first negative second third show ?thesis by blast
qed

theorem selector_aborts_iff_witness:
  "0 \<le> lenum three_elements
   \<and> linear_elements_count (\<lambda>_ e. e = 1) three_elements = Inr 2
   \<and> (\<exists>mapper. linear_elements_mapping (\<lambda>_ e. e = 1) three_elements 2 (\<lambda>_. 7) = Inr mapper)
   \<and> (\<exists>msg. linear_elements_mapping (\<lambda>_ e. e = 1) three_elements 3 (\<lambda>_. 7) = Inl msg)"
proof -
  have count: "linear_elements_count (\<lambda>_ e. e = 1) three_elements = Inr 2"
    by (simp add: linear_elements_count_def count_step_eq three_elements_def upt_3)
  have filled: "length (filter (\<lambda>e. \<not> e = 1) [0..<nat (lenum three_elements)]) = 2"
    by (simp add: three_elements_def upt_3)
  note inst = selector_aborts_iff [where p = "\<lambda>_ e. e = 1" and m = three_elements
      and fresh = "\<lambda>_. 7"]
  from inst [where n = 2] count
  have "\<exists>mapper. linear_elements_mapping (\<lambda>_ e. e = 1) three_elements 2 (\<lambda>_. 7) = Inr mapper"
    by (auto simp: three_elements_def)
  moreover from inst [where n = 3] filled
  have "\<exists>msg. linear_elements_mapping (\<lambda>_ e. e = 1) three_elements 3 (\<lambda>_. 7) = Inl msg"
    by simp
  ultimately show ?thesis
    using count by (simp add: three_elements_def)
qed

text \<open>
  C6 as stated fails. On a mesh whose \<^verbatim>\<open>lenum\<close> is \<open>-1\<close> the loop of
  \<open>linear_elements_count\<close> visits no element, the count is 0, and \<open>0 > -1\<close> aborts, with a
  predicate that is constant.
\<close>

theorem selector_aborts_on_negative_lenum:
  "lenum negative_lenum = - 1
   \<and> foldl (count_step (\<lambda>_ _. False) negative_lenum) 0 [0..<nat (lenum negative_lenum)] = 0
   \<and> linear_elements_count (\<lambda>_ _. False) negative_lenum
       = Inl (Abort ''linear_elements_count: more elements than expected'')
   \<and> linear_elements_count (\<lambda>_ _. True) negative_lenum
       = Inl (Abort ''linear_elements_count: more elements than expected'')"
  by (simp add: linear_elements_count_def negative_lenum_def)


section \<open>Scatter on the host\<close>

lemma upt_8: "[0..<8] = [0, 1, 2, 3, 4, 5, 6, 7::nat]"
  by (simp add: upt_rec)

text \<open>A scatter loop adds to each cell the values of the steps that name it.\<close>

lemma fvector_add_plus: "fvector_add a b = a + b"
  by (simp add: plus_fvector_t_def)

lemma scatter_loop:
  "foldl (\<lambda>nodal i. nodal(g i := fvector_add (nodal (g i)) (h i))) nodal xs n =
     nodal n + sum_list (map h (filter (\<lambda>i. g i = n) xs))"
proof (induction xs arbitrary: nodal)
  case Nil
  show ?case by simp
next
  case (Cons x xs)
  let ?step = "\<lambda>nodal i. nodal(g i := fvector_add (nodal (g i)) (h i))"
  have "foldl ?step nodal (x # xs) n = foldl ?step (?step nodal x) xs n"
    by (simp only: foldl_Cons)
  also have "\<dots> = ?step nodal x n + sum_list (map h (filter (\<lambda>i. g i = n) xs))"
    by (rule Cons.IH)
  also have "?step nodal x n = nodal n + (if g x = n then h x else 0)"
    by (simp add: fvector_add_plus)
  finally show ?case
    by (simp add: add.assoc)
qed

lemma add_to_nodes_eq:
  "add_to_nodes elemp localForce nodal n =
     nodal n + sum_list (map ((!) localForce) (filter (\<lambda>i. lnid elemp i = n) [0..<8]))"
  unfolding add_to_nodes_def by (rule scatter_loop)

lemma effective_cpu_element_eq:
  "effective_cpu_element myMesh mySolver mapper nodal s n =
     nodal n + sum_list (map (slice_force mapper (elemTable myMesh) (eTable mySolver) (tm1 mySolver))
       (map (Pair s) (filter (\<lambda>i. lnid (elemTable myMesh (mapper s)) i = n) [0..<8])))"
  by (simp add: effective_cpu_element_def Let_def add_to_nodes_eq slice_force_def comp_def)

lemma element_loop:
  "foldl (effective_cpu_element myMesh mySolver mapper) nodal xs n =
     nodal n + sum_list (map (slice_force mapper (elemTable myMesh) (eTable mySolver) (tm1 mySolver))
       (concat (map (\<lambda>s. map (Pair s)
          (filter (\<lambda>i. lnid (elemTable myMesh (mapper s)) i = n) [0..<8])) xs)))"
proof (induction xs arbitrary: nodal)
  case Nil
  show ?case by simp
next
  case (Cons x xs)
  let ?refs = "\<lambda>s. map (Pair s) (filter (\<lambda>i. lnid (elemTable myMesh (mapper s)) i = n) [0..<8])"
  let ?f = "slice_force mapper (elemTable myMesh) (eTable mySolver) (tm1 mySolver)"
  have "foldl (effective_cpu_element myMesh mySolver mapper) nodal (x # xs) n =
      foldl (effective_cpu_element myMesh mySolver mapper)
        (effective_cpu_element myMesh mySolver mapper nodal x) xs n"
    by (simp only: foldl_Cons)
  also have "\<dots> = effective_cpu_element myMesh mySolver mapper nodal x n
      + sum_list (map ?f (concat (map ?refs xs)))"
    by (rule Cons.IH)
  also have "effective_cpu_element myMesh mySolver mapper nodal x n =
      nodal n + sum_list (map ?f (?refs x))"
    by (rule effective_cpu_element_eq)
  finally show ?case
    by (simp only: list.map concat.simps map_append sum_list_append add.assoc)
qed

lemma host_force_total:
  "force (compute_addforce_effective_cpu cnt mapper myMesh mySolver) n =
     force mySolver n + sum_list (map (slice_force mapper (elemTable myMesh) (eTable mySolver) (tm1 mySolver))
       (slice_references cnt mapper myMesh n))"
proof -
  have "force (compute_addforce_effective_cpu cnt mapper myMesh mySolver) =
      foldl (effective_cpu_element myMesh mySolver mapper) (force mySolver) [0..<cnt]"
    by (simp add: compute_addforce_effective_cpu_def)
  then show ?thesis
    by (simp only: element_loop slice_references_def)
qed


section \<open>The two kernels\<close>

text \<open>A loop that stores \<open>lf ! i\<close> in cell \<open>b + i\<close>.\<close>

lemma store_loop:
  "foldl (\<lambda>dev i. dev(b + i := lf ! i)) dev xs k =
     (if \<exists>i\<in>set xs. b + i = k then lf ! (k - b) else dev k)"
proof (induction xs arbitrary: dev)
  case Nil
  show ?case by simp
next
  case (Cons x xs)
  let ?step = "\<lambda>dev i. dev(b + i := lf ! i)"
  have "foldl ?step dev (x # xs) k = foldl ?step (?step dev x) xs k"
    by (simp only: foldl_Cons)
  also have "\<dots> = (if \<exists>i\<in>set xs. b + i = k then lf ! (k - b) else ?step dev x k)"
    by (rule Cons.IH)
  finally have run: "foldl ?step dev (x # xs) k =
      (if \<exists>i\<in>set xs. b + i = k then lf ! (k - b) else ?step dev x k)" .
  have step: "?step dev x k = (if b + x = k then lf ! (k - b) else dev k)"
    by auto
  show ?case
    unfolding run step by auto
qed

lemma in_slice_iff: "(\<exists>i\<in>set [0..<8]. s * 8 + i = k) \<longleftrightarrow> k div 8 = (s::nat)"
proof
  assume "\<exists>i\<in>set [0..<8]. s * 8 + i = k"
  then obtain i where "i < 8" "k = s * 8 + i" by auto
  then show "k div 8 = s" by simp
next
  assume "k div 8 = s"
  then have "k mod 8 < 8" "s * 8 + k mod 8 = k" by auto
  then show "\<exists>i\<in>set [0..<8]. s * 8 + i = k"
    by (intro bexI [of _ "k mod 8"]) simp_all
qed

lemma kernelStiffnessCalcLocal_eq:
  "kernelStiffnessCalcLocal cnt mapper elemTab eTab disp dev s k =
     (if s < cnt \<and> k div 8 = s then slice_force mapper elemTab eTab disp (s, k mod 8) else dev k)"
proof (cases "s < cnt")
  case False
  then show ?thesis by (simp add: kernelStiffnessCalcLocal_def)
next
  case True
  let ?lf = "element_localForce (eTab (mapper s)) (gather_curDisp (elemTab (mapper s)) disp)"
  from True have "kernelStiffnessCalcLocal cnt mapper elemTab eTab disp dev s k =
      foldl (\<lambda>dev i. dev(s * 8 + i := ?lf ! i)) dev [0..<8] k"
    by (simp add: kernelStiffnessCalcLocal_def Let_def)
  also have "\<dots> = (if \<exists>i\<in>set [0..<8]. s * 8 + i = k then ?lf ! (k - s * 8) else dev k)"
    by (rule store_loop)
  also have "\<dots> = (if k div 8 = s then ?lf ! (k mod 8) else dev k)"
  proof (cases "k div 8 = s")
    case True
    then have "k - s * 8 = k mod 8"
      by (metis add_diff_cancel_left' mult.commute mult_div_mod_eq)
    with True show ?thesis by (simp only: in_slice_iff if_True)
  next
    case False
    then show ?thesis by (simp only: in_slice_iff if_False)
  qed
  finally show ?thesis using True by (simp add: slice_force_def)
qed

lemma calc_threads:
  "foldl (kernelStiffnessCalcLocal cnt mapper elemTab eTab disp) dev [0..<N] k =
     (if k div 8 < cnt \<and> k div 8 < N
      then slice_force mapper elemTab eTab disp (k div 8, k mod 8) else dev k)"
proof (induction N)
  case 0
  show ?case by simp
next
  case (Suc N)
  let ?thread = "kernelStiffnessCalcLocal cnt mapper elemTab eTab disp"
  have "foldl ?thread dev [0..<Suc N] k = ?thread (foldl ?thread dev [0..<N]) N k"
    by (simp only: upt_Suc_append [OF le0] foldl_append foldl_Cons foldl_Nil)
  also have "\<dots> = (if N < cnt \<and> k div 8 = N
      then slice_force mapper elemTab eTab disp (N, k mod 8)
      else foldl ?thread dev [0..<N] k)"
    by (rule kernelStiffnessCalcLocal_eq)
  finally have run: "foldl ?thread dev [0..<Suc N] k =
      (if N < cnt \<and> k div 8 = N
       then slice_force mapper elemTab eTab disp (N, k mod 8)
       else foldl ?thread dev [0..<N] k)" .
  show ?case
    unfolding run Suc.IH by (auto simp: less_Suc_eq)
qed

lemma launch_calc:
  "launch g b (kernelStiffnessCalcLocal cnt mapper elemTab eTab disp) dev k =
     (if k div 8 < cnt \<and> k div 8 < g * b
      then slice_force mapper elemTab eTab disp (k div 8, k mod 8) else dev k)"
  unfolding launch_def by (rule calc_threads)

text \<open>The gather loop of a node.\<close>

lemma gather_loop:
  "foldl (\<lambda>nodalForce i. fvector_add nodalForce (h i)) v xs = v + sum_list (map h xs)"
proof (induction xs arbitrary: v)
  case Nil
  show ?case by simp
next
  case (Cons x xs)
  have "foldl (\<lambda>nodalForce i. fvector_add nodalForce (h i)) v (x # xs) =
      foldl (\<lambda>nodalForce i. fvector_add nodalForce (h i)) (fvector_add v (h x)) xs"
    by (simp only: foldl_Cons)
  also have "\<dots> = fvector_add v (h x) + sum_list (map h xs)"
    by (rule Cons.IH)
  finally show ?case
    by (simp add: fvector_add_plus add.assoc)
qed

lemma kernelStiffnessAddLocal_eq:
  "kernelStiffnessAddLocal nh rv dev fd node n =
     (if node < nh \<and> n = node then fd n + gathered dev (rv node) else fd n)"
proof (cases "node < nh")
  case False
  then show ?thesis by (simp add: kernelStiffnessAddLocal_def)
next
  case True
  let ?h = "\<lambda>i. dev (elemid (elements (rv node) i) * 8 + offset (elements (rv node) i))"
  have "foldl (\<lambda>nodalForce i. fvector_add nodalForce (?h i)) (fd node) [0..<count (rv node)]
      = fd node + sum_list (map ?h [0..<count (rv node)])"
    by (rule gather_loop)
  also have "sum_list (map ?h [0..<count (rv node)]) = gathered dev (rv node)"
    by (simp add: gathered_def rev_entries_def comp_def)
  finally show ?thesis
    using True by (simp add: kernelStiffnessAddLocal_def Let_def)
qed

lemma add_threads:
  "foldl (kernelStiffnessAddLocal nh rv dev) fd [0..<N] n =
     (if n < nh \<and> n < N then fd n + gathered dev (rv n) else fd n)"
proof (induction N)
  case 0
  show ?case by simp
next
  case (Suc N)
  let ?thread = "kernelStiffnessAddLocal nh rv dev"
  have "foldl ?thread fd [0..<Suc N] n = ?thread (foldl ?thread fd [0..<N]) N n"
    by (simp only: upt_Suc_append [OF le0] foldl_append foldl_Cons foldl_Nil)
  also have "\<dots> = (if N < nh \<and> n = N
      then foldl ?thread fd [0..<N] n + gathered dev (rv N)
      else foldl ?thread fd [0..<N] n)"
    by (rule kernelStiffnessAddLocal_eq)
  finally have run: "foldl ?thread fd [0..<Suc N] n =
      (if N < nh \<and> n = N
       then foldl ?thread fd [0..<N] n + gathered dev (rv N)
       else foldl ?thread fd [0..<N] n)" .
  show ?case
    unfolding run Suc.IH by (auto simp: less_Suc_eq)
qed

lemma launch_add:
  "launch g b (kernelStiffnessAddLocal nh rv dev) fd n =
     (if n < nh \<and> n < g * b then fd n + gathered dev (rv n) else fd n)"
  unfolding launch_def by (rule add_threads)


section \<open>Gather on the accelerator against scatter on the host\<close>

lemma set_slice_references:
  "set (slice_references cnt mapper myMesh n) =
     {(s, i). s < cnt \<and> i < 8 \<and> lnid (elemTable myMesh (mapper s)) i = n}"
  by (auto simp: slice_references_def)

lemma distinct_tagged:
  assumes "distinct xs" and "distinct ys"
  shows "distinct (concat (map (\<lambda>s. map (Pair s) (filter (P s) ys)) xs))"
  using assms(1)
proof (induction xs)
  case Nil
  show ?case by simp
next
  case (Cons x xs)
  have "distinct (map (Pair x) (filter (P x) ys))"
    using assms(2) by (simp add: distinct_map inj_on_def)
  moreover have "distinct (concat (map (\<lambda>s. map (Pair s) (filter (P s) ys)) xs))"
    using Cons by simp
  moreover have "set (map (Pair x) (filter (P x) ys))
      \<inter> set (concat (map (\<lambda>s. map (Pair s) (filter (P s) ys)) xs)) = {}"
    using Cons.prems by auto
  ultimately show ?case by simp
qed

lemma distinct_slice_references: "distinct (slice_references cnt mapper myMesh n)"
  unfolding slice_references_def by (rule distinct_tagged) simp_all

lemma gathered_slices:
  assumes "distinct (rev_entries revp)"
    and "set (rev_entries revp) = set (slice_references cnt mapper myMesh n)"
    and "cnt \<le> g * b"
  shows "gathered (launch g b (kernelStiffnessCalcLocal cnt mapper (elemTable myMesh) eTab disp) dev) revp
     = sum_list (map (slice_force mapper (elemTable myMesh) eTab disp)
         (slice_references cnt mapper myMesh n))"
proof -
  let ?dev = "launch g b (kernelStiffnessCalcLocal cnt mapper (elemTable myMesh) eTab disp) dev"
  let ?f = "slice_force mapper (elemTable myMesh) eTab disp"
  have cell: "(\<lambda>(e, noffset). ?dev (e * 8 + noffset)) r = ?f r" if "r \<in> set (rev_entries revp)" for r
  proof -
    obtain s i where r: "r = (s, i)" by (cases r)
    with that assms(2) have "s < cnt" "i < 8"
      by (simp_all add: set_slice_references)
    with assms(3) have "?dev (s * 8 + i) = ?f (s, i)"
      by (simp add: launch_calc)
    with r show ?thesis by simp
  qed
  have "gathered ?dev revp = sum_list (map ?f (rev_entries revp))"
    unfolding gathered_def by (rule arg_cong [where f = sum_list], rule map_cong) (simp_all add: cell)
  also have "\<dots> = sum ?f (set (rev_entries revp))"
    using assms(1) by (rule sum_list_distinct_conv_sum_set)
  also have "\<dots> = sum ?f (set (slice_references cnt mapper myMesh n))"
    by (simp only: assms(2))
  also have "\<dots> = sum_list (map ?f (slice_references cnt mapper myMesh n))"
    using distinct_slice_references by (rule sum_list_distinct_conv_sum_set [symmetric])
  finally show ?thesis .
qed


section \<open>The transform kernel on eight vectors\<close>

lemma replicate_8: "replicate 8 x = [x, x, x, x, x, x, x, x]"
  by (simp add: numeral_eq_Suc)

lemma list_of_length_8:
  assumes "length xs = 8"
  obtains x0 x1 x2 x3 x4 x5 x6 x7 where "xs = [x0, x1, x2, x3, x4, x5, x6, x7]"
proof -
  from assms have "length xs = Suc (Suc (Suc (Suc (Suc (Suc (Suc (Suc 0)))))))"
    by simp
  then show thesis
    by (auto simp: length_Suc_conv intro: that)
qed

lemma list_of_length_24:
  assumes "length xs = 24"
  obtains x0 x1 x2 x3 x4 x5 x6 x7 x8 x9 x10 x11 x12 x13 x14 x15 x16 x17 x18 x19 x20 x21 x22 x23
  where "xs = [x0, x1, x2, x3, x4, x5, x6, x7, x8, x9, x10, x11, x12, x13, x14, x15, x16, x17,
    x18, x19, x20, x21, x22, x23]"
proof -
  obtain ys zs ws where "xs = ys @ zs @ ws" and "length ys = 8" "length zs = 8" "length ws = 8"
  proof
    show "xs = take 8 xs @ take 8 (drop 8 xs) @ drop 16 xs"
      by (metis append_take_drop_id drop_drop numeral_Bit0)
  qed (use assms in simp_all)
  then show thesis
    by (elim list_of_length_8) (auto intro: that)
qed

lemma reformF_reformU:
  assumes "length u = 24"
  shows "reformF (reformU u) = u"
  using assms by (elim list_of_length_24) (simp add: reformF_def reformU_def)

lemma reformU_reformF:
  assumes "length u = 24"
  shows "reformU (reformF u) = u"
  using assms by (elim list_of_length_24) (simp add: reformF_def reformU_def)

lemma arrange_8:
  "arrange [v0, v1, v2, v3, v4, v5, v6, v7] =
     [f0 v0, f1 v0, f2 v0, f0 v1, f1 v1, f2 v1, f0 v2, f1 v2, f2 v2, f0 v3, f1 v3, f2 v3,
      f0 v4, f1 v4, f2 v4, f0 v5, f1 v5, f2 v5, f0 v6, f1 v6, f2 v6, f0 v7, f1 v7, f2 v7]"
  by (simp add: arrange_def upt_8 upt_3 f_at_def)

text \<open>
  The inverse transform applied to the forward transform: eight times the input, less
  the sum of the eight values along the same axis.
\<close>

lemma au_aTransposeU_8:
  "au (replicate 8 (fvector 0 0 0)) (aTransposeU [v0, v1, v2, v3, v4, v5, v6, v7]) =
     map (\<lambda>v. fvector
        (8 * f0 v - (f0 v0 + f0 v1 + f0 v2 + f0 v3 + f0 v4 + f0 v5 + f0 v6 + f0 v7))
        (8 * f1 v - (f1 v0 + f1 v1 + f1 v2 + f1 v3 + f1 v4 + f1 v5 + f1 v6 + f1 v7))
        (8 * f2 v - (f2 v0 + f2 v1 + f2 v2 + f2 v3 + f2 v4 + f2 v5 + f2 v6 + f2 v7)))
      [v0, v1, v2, v3, v4, v5, v6, v7]"
  by (simp add: au_def aTransposeU_def arrange_8 reformU_def reformF_def aTransposeU_rows_def
      au_rows_def upt_8 replicate_8 Let_def)

lemma aTransposeU_equal_corners: "aTransposeU (replicate 8 d) = replicate 24 0"
  by (simp add: replicate_8 aTransposeU_def arrange_8 reformU_def aTransposeU_rows_def Let_def
      numeral_eq_Suc)

lemma firstVector_zero: "firstVector (replicate 24 0) a c b = replicate 24 0"
  by (simp add: firstVector_def numeral_eq_Suc)

lemma au_zero: "au (replicate 8 (fvector 0 0 0)) (replicate 24 0) = replicate 8 (fvector 0 0 0)"
  by (simp add: au_def au_rows_def reformF_def upt_8 replicate_8 Let_def numeral_eq_Suc)

lemma element_localForce_equal_corners:
  "element_localForce ep (replicate 8 d) = replicate 8 (fvector 0 0 0)"
  by (simp add: element_localForce_def Let_def aTransposeU_equal_corners firstVector_zero au_zero)

lemma vector_is_zero_small:
  assumes "\<forall>i<8. \<forall>j<3. \<bar>f_at (v ! i) j\<bar> < UNDERFLOW_CAP_STIFFNESS"
  shows "vector_is_zero v = 0"
proof -
  have "\<not> \<bar>f_at (v ! i) j\<bar> > UNDERFLOW_CAP_STIFFNESS" if "i < 8" "j < 3" for i j
    using assms that by (simp add: not_less less_imp_le)
  then show ?thesis
    by (simp add: vector_is_zero_def list_ex_iff)
qed

lemma element_localForce_small:
  assumes "\<forall>i<8. \<forall>j<3. \<bar>f_at (v ! i) j\<bar> < UNDERFLOW_CAP_STIFFNESS"
  shows "element_localForce ep v = replicate 8 (fvector 0 0 0)"
  by (simp add: element_localForce_def vector_is_zero_small [OF assms])

lemma nth_gather_curDisp: "i < 8 \<Longrightarrow> gather_curDisp elemp disp ! i = disp (lnid elemp i)"
  by (simp add: gather_curDisp_def)

lemma add_to_nodes_zero: "add_to_nodes elemp (replicate 8 (fvector 0 0 0)) nodal = nodal"
proof
  fix n
  have "map ((!) (replicate 8 (fvector 0 0 0))) (filter (\<lambda>i. lnid elemp i = n) [0..<8])
      = map (\<lambda>_. 0) (filter (\<lambda>i. lnid elemp i = n) [0..<8])"
    by (rule map_cong) (simp_all add: zero_fvector_t_def)
  then have "sum_list (map ((!) (replicate 8 (fvector 0 0 0)))
      (filter (\<lambda>i. lnid elemp i = n) [0..<8])) = 0"
    by (simp only: sum_list_0)
  then show "add_to_nodes elemp (replicate 8 (fvector 0 0 0)) nodal n = nodal n"
    by (simp only: add_to_nodes_eq add_0_right)
qed

lemma element_localForce_corner0_x:
  "element_localForce \<lparr>c1 = 2, c2 = 1\<rparr> corner0_x =
     [fvector (- 9) (- (9 / 4)) (- (9 / 4)), fvector 3 (3 / 4) (3 / 4),
      fvector (- (3 / 2)) (- (3 / 4)) (- (9 / 8)), fvector 3 (9 / 4) (3 / 8),
      fvector (- (3 / 2)) (- (9 / 8)) (- (3 / 4)), fvector 3 (3 / 8) (9 / 4),
      fvector (3 / 4) (- (3 / 8)) (- (3 / 8)), fvector (9 / 4) (9 / 8) (9 / 8)]"
proof -
  have "vector_is_zero corner0_x = 1"
    by (simp add: vector_is_zero_def corner0_x_def upt_8 upt_3 f_at_def UNDERFLOW_CAP_STIFFNESS_def)
  moreover have "aTransposeU corner0_x =
      [0, -1, -1, -1, 1, 1, 1, -1, 0, 0, 0, 0, 0, 0, 0, 0, 0, 0, 0, 0, 0, 0, 0, 0]"
    by (simp add: corner0_x_def aTransposeU_def arrange_8 reformU_def aTransposeU_rows_def Let_def)
  ultimately show ?thesis
    by (simp add: element_localForce_def firstVector_def au_def au_rows_def reformF_def
        upt_8 replicate_8 Let_def)
qed

section \<open>Rounding in the transform kernel\<close>

lemma double_round_binade:
  assumes "2 powi e \<le> \<bar>x\<bar>" and "\<bar>x\<bar> < 2 powi (e + 1)"
  shows "double_round x = of_int (round_to_even (x / 2 powi (e - 52))) * 2 powi (e - 52)"
proof -
  have "(0::real) < 2 powi e" by simp
  with assms(1) have pos: "0 < \<bar>x\<bar>" by linarith
  have "2 powr real_of_int e = (2::real) powi e"
    and "2 powr real_of_int (e + 1) = (2::real) powi (e + 1)"
    by (rule powr_real_of_int'; simp)+
  with assms have "2 powr real_of_int e \<le> \<bar>x\<bar> \<and> \<bar>x\<bar> < 2 powr real_of_int (e + 1)"
    by (simp only: simp_thms)
  moreover have "(1::real) < 2" by simp
  ultimately have "\<lfloor>log 2 \<bar>x\<bar>\<rfloor> = e"
    using pos by (simp only: floor_log_eq_powr_iff)
  with pos show ?thesis
    by (simp add: double_round_def Let_def)
qed

text \<open>The double nearest to \<open>0.1\<close>, and the one nearest to \<open>1e-20\<close>.\<close>

lemma double_tenth: "double_round (1 / 10) = 3602879701896397 / 36028797018963968"
  by (subst double_round_binade [where e = "- 4"]) (simp_all add: round_to_even_def)

lemma double_cap:
  "double_round UNDERFLOW_CAP_STIFFNESS = 6646139978924579 / 664613997892457936451903530140172288"
  unfolding UNDERFLOW_CAP_STIFFNESS_def
  by (subst double_round_binade [where e = "- 67"]) (simp_all add: round_to_even_def)

lemma double_round_0: "double_round 0 = 0"
  by (simp add: double_round_def)

text \<open>
  The roundings that occur when the block runs on eight displacements \<open>0.1\<close> along the
  first axis with \<open>c1 = 2\<close> and \<open>c2 = 1\<close>. Only three of them change the value: the
  partial sums \<open>-0.30000000000000004\<close> (twice) and \<open>-0.4\<close> of \<^verbatim>\<open>atu[1]\<close>.
\<close>

lemma double_round_values:
  "double_round (- (81 / 16)) = - (81 / 16)"
  "double_round (- (63 / 16)) = - (63 / 16)"
  "double_round (- (45 / 16)) = - (45 / 16)"
  "double_round (- (9 / 4)) = - (9 / 4)"
  "double_round (- (9 / 8)) = - (9 / 8)"
  "double_round (- (9 / 16)) = - (9 / 16)"
  "double_round (- (14411518807585589 / 36028797018963968)) = - (3602879701896397 / 9007199254740992)"
  "double_round (- (10808639105689191 / 36028797018963968)) = - (1351079888211149 / 4503599627370496)"
  "double_round (- (7205759403792795 / 36028797018963968)) = - (7205759403792795 / 36028797018963968)"
  "double_round (- (3602879701896397 / 18014398509481984)) = - (3602879701896397 / 18014398509481984)"
  "double_round (- (1801439850948199 / 18014398509481984)) = - (1801439850948199 / 18014398509481984)"
  "double_round (- (3602879701896397 / 36028797018963968)) = - (3602879701896397 / 36028797018963968)"
  "double_round (- (9 / 288230376151711744)) = - (9 / 288230376151711744)"
  "double_round (- (1 / 36028797018963968)) = - (1 / 36028797018963968)"
  "double_round (9 / 288230376151711744) = 9 / 288230376151711744"
  "double_round (3602879701896397 / 36028797018963968) = 3602879701896397 / 36028797018963968"
  "double_round (3602879701896397 / 18014398509481984) = 3602879701896397 / 18014398509481984"
  "double_round (4) = 4"
  "double_round (5) = 5"
  by (subst double_round_binade [where e = "2"], simp, simp, simp add: round_to_even_def,
      subst double_round_binade [where e = "1"], simp, simp, simp add: round_to_even_def,
      subst double_round_binade [where e = "1"], simp, simp, simp add: round_to_even_def,
      subst double_round_binade [where e = "1"], simp, simp, simp add: round_to_even_def,
      subst double_round_binade [where e = "0"], simp, simp, simp add: round_to_even_def,
      subst double_round_binade [where e = "- 1"], simp, simp, simp add: round_to_even_def,
      subst double_round_binade [where e = "- 2"], simp, simp, simp add: round_to_even_def,
      subst double_round_binade [where e = "- 2"], simp, simp, simp add: round_to_even_def,
      subst double_round_binade [where e = "- 3"], simp, simp, simp add: round_to_even_def,
      subst double_round_binade [where e = "- 3"], simp, simp, simp add: round_to_even_def,
      subst double_round_binade [where e = "- 4"], simp, simp, simp add: round_to_even_def,
      subst double_round_binade [where e = "- 4"], simp, simp, simp add: round_to_even_def,
      subst double_round_binade [where e = "- 55"], simp, simp, simp add: round_to_even_def,
      subst double_round_binade [where e = "- 55"], simp, simp, simp add: round_to_even_def,
      subst double_round_binade [where e = "- 55"], simp, simp, simp add: round_to_even_def,
      subst double_round_binade [where e = "- 4"], simp, simp, simp add: round_to_even_def,
      subst double_round_binade [where e = "- 3"], simp, simp, simp add: round_to_even_def,
      subst double_round_binade [where e = "2"], simp, simp, simp add: round_to_even_def,
      subst double_round_binade [where e = "2"], simp, simp, simp add: round_to_even_def)

lemma double_sum_Cons:
  "double_sum x ((Add, y) # ts) = double_sum (double_add x y) ts"
  "double_sum x ((Subtract, y) # ts) = double_sum (double_sub x y) ts"
  "double_sum x [] = x"
  by (simp_all add: double_sum_def)

lemma aTransposeU_double_tenth:
  "aTransposeU_double (replicate 8 (fvector (3602879701896397 / 36028797018963968) 0 0)) =
     [0, - (1 / 36028797018963968), 0, 0, 0, 0, 0, 0, 0, 0, 0, 0, 0, 0, 0, 0, 0, 0, 0, 0, 0, 0,
      0, 0]"
  by (simp add: aTransposeU_double_def replicate_8 arrange_8 reformU_def
      aTransposeU_rows_double_def double_sum_Cons double_add_def double_sub_def double_round_0
      double_round_values Let_def)

lemma coefficients_double:
  "double_mul (- 0.5625) (double_add 1 (double_mul 2 2)) = - (45 / 16)"
  "double_mul (- 0.5625) 1 = - (9 / 16)"
  "double_mul (- 0.5625) 2 = - (9 / 8)"
  by (simp_all add: double_mul_def double_add_def double_round_values)

lemma firstVector_double_tenth:
  "firstVector_double
     [0, - (1 / 36028797018963968), 0, 0, 0, 0, 0, 0, 0, 0, 0, 0, 0, 0, 0, 0, 0, 0, 0, 0, 0, 0,
      0, 0]
     (- (45 / 16)) (- (9 / 16)) (- (9 / 8)) =
     [0, 9 / 288230376151711744, 0, 0, 0, 0, 0, 0, 0, 0, 0, 0, 0, 0, 0, 0, 0, 0, 0,
      9 / 288230376151711744, 0, 0, 0, 0]"
  by (simp add: firstVector_double_def double_mul_def double_div_def double_add_def
      double_round_0 double_round_values)

lemma au_double_tenth:
  "au_double (replicate 8 (fvector 0 0 0))
     [0, 9 / 288230376151711744, 0, 0, 0, 0, 0, 0, 0, 0, 0, 0, 0, 0, 0, 0, 0, 0, 0,
      9 / 288230376151711744, 0, 0, 0, 0] =
     [fvector (- (9 / 288230376151711744)) 0 (- (9 / 288230376151711744)), fvector (- (9 / 288230376151711744)) 0 (9 / 288230376151711744),
      fvector (- (9 / 288230376151711744)) 0 (- (9 / 288230376151711744)), fvector (- (9 / 288230376151711744)) 0 (9 / 288230376151711744),
      fvector (9 / 288230376151711744) 0 (- (9 / 288230376151711744)), fvector (9 / 288230376151711744) 0 (9 / 288230376151711744),
      fvector (9 / 288230376151711744) 0 (- (9 / 288230376151711744)), fvector (9 / 288230376151711744) 0 (9 / 288230376151711744)]"
  by (simp add: au_double_def au_rows_double_def reformF_def replicate_8 upt_8
      double_sum_Cons double_add_def double_sub_def double_round_0 double_round_values Let_def)

lemma vector_is_zero_double_tenth:
  "vector_is_zero_double (replicate 8 (fvector (3602879701896397 / 36028797018963968) 0 0)) = 1"
  by (simp add: vector_is_zero_double_def double_cap replicate_8 upt_8 upt_3 f_at_def)

lemma element_localForce_double_tenth:
  "element_localForce_double \<lparr>c1 = 2, c2 = 1\<rparr>
     (replicate 8 (fvector (3602879701896397 / 36028797018963968) 0 0)) =
     [fvector (- (9 / 288230376151711744)) 0 (- (9 / 288230376151711744)), fvector (- (9 / 288230376151711744)) 0 (9 / 288230376151711744),
      fvector (- (9 / 288230376151711744)) 0 (- (9 / 288230376151711744)), fvector (- (9 / 288230376151711744)) 0 (9 / 288230376151711744),
      fvector (9 / 288230376151711744) 0 (- (9 / 288230376151711744)), fvector (9 / 288230376151711744) 0 (9 / 288230376151711744),
      fvector (9 / 288230376151711744) 0 (- (9 / 288230376151711744)), fvector (9 / 288230376151711744) 0 (9 / 288230376151711744)]"
  unfolding element_localForce_double_def Let_def
  by (simp only: vector_is_zero_double_tenth e_t.simps coefficients_double
      aTransposeU_double_tenth firstVector_double_tenth au_double_tenth)
     simp

text \<open>
  The inverse transform of the forward transform of the same eight displacements, with
  every operation rounded: the residue of \<^verbatim>\<open>atu[1]\<close> comes back at every corner.
\<close>

lemma double_round_residue:
  "double_round (1 / 36028797018963968) = 1 / 36028797018963968"
  by (subst double_round_binade [where e = "- 55"]) (simp_all add: round_to_even_def)

lemma au_double_aTransposeU_double_tenth:
  "au_double (replicate 8 (fvector 0 0 0))
     (aTransposeU_double (replicate 8 (fvector (3602879701896397 / 36028797018963968) 0 0))) =
     [fvector (1 / 36028797018963968) 0 0, fvector (1 / 36028797018963968) 0 0,
      fvector (1 / 36028797018963968) 0 0, fvector (1 / 36028797018963968) 0 0,
      fvector (- (1 / 36028797018963968)) 0 0, fvector (- (1 / 36028797018963968)) 0 0,
      fvector (- (1 / 36028797018963968)) 0 0, fvector (- (1 / 36028797018963968)) 0 0]"
  unfolding aTransposeU_double_tenth
  by (simp add: au_double_def au_rows_double_def reformF_def replicate_8 upt_8
      double_sum_Cons double_add_def double_sub_def double_round_0 double_round_values
      double_round_residue Let_def)


section \<open>Claims about the transform kernel\<close>

text \<open>
  C3. When each of the 24 components of an element's eight corner displacements is below
  the underflow cap \<open>1e-20\<close> in magnitude, \<^verbatim>\<open>vector_is_zero\<close> returns 0, the transform
  steps are skipped and the cleared \<^verbatim>\<open>localForce\<close> stays zero. On the host the element's
  iteration then leaves the force accumulator as it was; on the accelerator the thread
  writes eight zero vectors to its slice.
\<close>

theorem near_zero_displacement_gives_zero_force:
  "((\<forall>i<8. \<forall>j<3. \<bar>f_at (curDisp ! i) j\<bar> < UNDERFLOW_CAP_STIFFNESS) \<longrightarrow>
      vector_is_zero curDisp = 0
      \<and> element_localForce ep curDisp = replicate 8 (fvector 0 0 0))
   \<and> ((\<forall>i<8. \<forall>j<3.
          \<bar>f_at (tm1 mySolver (lnid (elemTable myMesh (mapper s)) i)) j\<bar> < UNDERFLOW_CAP_STIFFNESS) \<longrightarrow>
        effective_cpu_element myMesh mySolver mapper nodal s = nodal
        \<and> (s < cnt \<longrightarrow>
             (\<forall>i<8. kernelStiffnessCalcLocal cnt mapper (elemTable myMesh) (eTable mySolver)
                      (tm1 mySolver) dev s (s * 8 + i) = fvector 0 0 0)))"
proof (intro conjI impI)
  assume "\<forall>i<8. \<forall>j<3. \<bar>f_at (curDisp ! i) j\<bar> < UNDERFLOW_CAP_STIFFNESS"
  then show "vector_is_zero curDisp = 0"
    and "element_localForce ep curDisp = replicate 8 (fvector 0 0 0)"
    by (rule vector_is_zero_small, rule element_localForce_small)
next
  let ?elemp = "elemTable myMesh (mapper s)"
  let ?curDisp = "gather_curDisp ?elemp (tm1 mySolver)"
  assume "\<forall>i<8. \<forall>j<3. \<bar>f_at (tm1 mySolver (lnid ?elemp i)) j\<bar> < UNDERFLOW_CAP_STIFFNESS"
  then have "\<forall>i<8. \<forall>j<3. \<bar>f_at (?curDisp ! i) j\<bar> < UNDERFLOW_CAP_STIFFNESS"
    by (simp add: nth_gather_curDisp)
  then have zero: "element_localForce (eTable mySolver (mapper s)) ?curDisp = replicate 8 (fvector 0 0 0)"
    by (rule element_localForce_small)
  show "effective_cpu_element myMesh mySolver mapper nodal s = nodal"
    by (simp add: effective_cpu_element_def Let_def zero add_to_nodes_zero)
  show "\<forall>i<8. kernelStiffnessCalcLocal cnt mapper (elemTable myMesh) (eTable mySolver)
      (tm1 mySolver) dev s (s * 8 + i) = fvector 0 0 0" if "s < cnt"
    using that by (simp add: kernelStiffnessCalcLocal_eq slice_force_def zero)
qed

theorem near_zero_displacement_gives_zero_force_witness:
  "element_localForce \<lparr>c1 = 2, c2 = 1\<rparr>
      (map (\<lambda>i. if i = 0 then fvector (1 / 10 ^ 21) 0 0 else fvector 0 (- (1 / 10 ^ 22)) 0) [0..<8])
     = replicate 8 (fvector 0 0 0)
   \<and> effective_cpu_element two_cubes tiny second_cube_only (force tiny) 0 = force tiny
   \<and> kernelStiffnessCalcLocal 1 second_cube_only (elemTable two_cubes) (eTable tiny) (tm1 tiny)
        (\<lambda>_. fvector 5 5 5) 0 (0 * 8 + 3) = fvector 0 0 0"
proof -
  let ?curDisp = "map (\<lambda>i. if i = 0 then fvector (1 / 10 ^ 21) 0 0
                        else fvector 0 (- (1 / 10 ^ 22)) 0) [0..<8]"
  have small: "\<forall>i<8. \<forall>j<3. \<bar>f_at (?curDisp ! i) j\<bar> < UNDERFLOW_CAP_STIFFNESS"
    by (simp add: f_at_def UNDERFLOW_CAP_STIFFNESS_def)
  have small': "\<forall>i<8. \<forall>j<3.
      \<bar>f_at (tm1 tiny (lnid (elemTable two_cubes (second_cube_only 0)) i)) j\<bar>
        < UNDERFLOW_CAP_STIFFNESS"
    by (simp add: f_at_def UNDERFLOW_CAP_STIFFNESS_def tiny_def)
  note inst = near_zero_displacement_gives_zero_force
    [where curDisp = ?curDisp and ep = "\<lparr>c1 = 2, c2 = 1\<rparr>" and mySolver = tiny
       and myMesh = two_cubes and mapper = second_cube_only and s = 0 and nodal = "force tiny"
       and cnt = 1 and dev = "\<lambda>_. fvector 5 5 5"]
  from inst small small' show ?thesis by simp
qed

text \<open>
  C9. Whenever the transform steps run, they run with the three coefficients
  \<open>- k (c2 + 2 c1)\<close>, \<open>- k c2\<close> and \<open>- k c1\<close>, \<open>k = 0.5625 = 9/16\<close>, passed to
  \<^verbatim>\<open>firstVector\<close> in this order (its parameters \<^verbatim>\<open>a\<close>, \<^verbatim>\<open>c\<close>, \<^verbatim>\<open>b\<close>); for \<open>c1 = 2\<close> and
  \<open>c2 = 1\<close> they are \<open>-2.8125\<close>, \<open>-0.5625\<close> and \<open>-1.125\<close>.
\<close>

theorem effective_coefficients:
  "(vector_is_zero curDisp \<noteq> 0 \<longrightarrow>
      element_localForce ep curDisp =
        au (replicate 8 (fvector 0 0 0))
           (firstVector (aTransposeU curDisp)
              (- (9 / 16 * (c2 ep + 2 * c1 ep))) (- (9 / 16 * c2 ep)) (- (9 / 16 * c1 ep))))
   \<and> (c1 ep = 2 \<and> c2 ep = 1 \<and> vector_is_zero curDisp \<noteq> 0 \<longrightarrow>
      element_localForce ep curDisp =
        au (replicate 8 (fvector 0 0 0))
           (firstVector (aTransposeU curDisp) (- 2.8125) (- 0.5625) (- 1.125)))
   \<and> (0.5625 :: real) = 9 / 16"
  by (simp add: element_localForce_def Let_def)

theorem effective_coefficients_witness:
  "vector_is_zero corner0_x = 1
   \<and> au (replicate 8 (fvector 0 0 0))
        (firstVector (aTransposeU corner0_x) (- 2.8125) (- 0.5625) (- 1.125))
      = [fvector (- 9) (- (9 / 4)) (- (9 / 4)), fvector 3 (3 / 4) (3 / 4),
         fvector (- (3 / 2)) (- (3 / 4)) (- (9 / 8)), fvector 3 (9 / 4) (3 / 8),
         fvector (- (3 / 2)) (- (9 / 8)) (- (3 / 4)), fvector 3 (3 / 8) (9 / 4),
         fvector (3 / 4) (- (3 / 8)) (- (3 / 8)), fvector (9 / 4) (9 / 8) (9 / 8)]"
proof -
  have nonzero: "vector_is_zero corner0_x = 1"
    by (simp add: vector_is_zero_def corner0_x_def upt_8 upt_3 f_at_def UNDERFLOW_CAP_STIFFNESS_def)
  from effective_coefficients [where ep = "\<lparr>c1 = 2, c2 = 1\<rparr>" and curDisp = corner0_x] nonzero
  have "element_localForce \<lparr>c1 = 2, c2 = 1\<rparr> corner0_x =
      au (replicate 8 (fvector 0 0 0))
        (firstVector (aTransposeU corner0_x) (- 2.8125) (- 0.5625) (- 1.125))"
    by simp
  with nonzero show ?thesis
    by (simp only: element_localForce_corner0_x simp_thms)
qed

text \<open>
  C10, as amended. In exact arithmetic, an element whose eight corners have the same
  displacement gets no force: every output of the forward transform is 0 (a row has four
  entries \<open>+1\<close> and four \<open>-1\<close>, and the first row of each block is set to 0), so the combine
  step and the inverse transform give 0, whatever the coefficients; and the
  short-circuit, when it applies, leaves the cleared force as it is.
\<close>

theorem equal_corners_give_zero_force:
  "aTransposeU (replicate 8 d) = replicate 24 0
   \<and> firstVector (aTransposeU (replicate 8 d)) a c b = replicate 24 0
   \<and> au (replicate 8 (fvector 0 0 0)) (firstVector (aTransposeU (replicate 8 d)) a c b)
        = replicate 8 (fvector 0 0 0)
   \<and> element_localForce ep (replicate 8 d) = replicate 8 (fvector 0 0 0)"
  by (simp add: aTransposeU_equal_corners firstVector_zero au_zero
      element_localForce_equal_corners)

text \<open>
  C10 as stated fails. In \<^verbatim>\<open>double\<close> arithmetic the force of an element whose eight
  corners have the same displacement is not exactly zero. For the displacement \<open>0.1\<close> along
  the first axis at every corner and \<open>c1 = 2\<close>, \<open>c2 = 1\<close>, the forward transform leaves
  \<open>-2\<^sup>-\<^sup>5\<^sup>5\<close> in \<^verbatim>\<open>atu[1]\<close>, and the block returns \<open>\<plusminus>9/2\<^sup>5\<^sup>8\<close> (about \<open>3.1e-17\<close>) in the
  first and third component of every corner's force, where exact arithmetic gives 0.
\<close>

theorem equal_corners_give_nonzero_force_in_double:
  "double_round (1 / 10) = 3602879701896397 / 2 ^ 55
   \<and> aTransposeU_double (replicate 8 (fvector (double_round (1 / 10)) 0 0)) ! 1 = - (1 / 2 ^ 55)
   \<and> element_localForce_double \<lparr>c1 = 2, c2 = 1\<rparr>
       (replicate 8 (fvector (double_round (1 / 10)) 0 0)) =
     [fvector (- (9 / 2 ^ 58)) 0 (- (9 / 2 ^ 58)), fvector (- (9 / 2 ^ 58)) 0 (9 / 2 ^ 58),
      fvector (- (9 / 2 ^ 58)) 0 (- (9 / 2 ^ 58)), fvector (- (9 / 2 ^ 58)) 0 (9 / 2 ^ 58),
      fvector (9 / 2 ^ 58) 0 (- (9 / 2 ^ 58)), fvector (9 / 2 ^ 58) 0 (9 / 2 ^ 58),
      fvector (9 / 2 ^ 58) 0 (- (9 / 2 ^ 58)), fvector (9 / 2 ^ 58) 0 (9 / 2 ^ 58)]
   \<and> element_localForce \<lparr>c1 = 2, c2 = 1\<rparr>
       (replicate 8 (fvector (double_round (1 / 10)) 0 0)) = replicate 8 (fvector 0 0 0)"
proof -
  have "element_localForce \<lparr>c1 = 2, c2 = 1\<rparr>
       (replicate 8 (fvector (double_round (1 / 10)) 0 0)) = replicate 8 (fvector 0 0 0)"
    by (rule element_localForce_equal_corners)
  then show ?thesis
    by (simp add: double_tenth aTransposeU_double_tenth element_localForce_double_tenth)
qed

text \<open>
  C4, as amended. On arrays of 24 scalars, \<^verbatim>\<open>reformU\<close> followed by \<^verbatim>\<open>reformF\<close> is the
  identity, and so is \<^verbatim>\<open>reformF\<close> followed by \<^verbatim>\<open>reformU\<close>; the two only copy, so this
  holds of \<^verbatim>\<open>double\<close> arrays as it stands. In exact arithmetic, the inverse transform
  \<^verbatim>\<open>au\<close> applied directly to the forward transform \<^verbatim>\<open>aTransposeU\<close> of eight vectors gives,
  at every corner and along every axis, 8 times the input less the sum of the eight
  inputs along that axis: it returns 8 times the input exactly when the inputs sum to 0
  along each axis. In exact arithmetic again, with \<open>a = b = c = t\<close>, \<open>t\<close> not 0, the
  combine step \<^verbatim>\<open>firstVector\<close> is no multiple of the identity: it sends the array with a
  single 1 in cell 1 to an array that is no multiple of it. In \<^verbatim>\<open>double\<close> arithmetic the
  law of the two transforms holds up to rounding only: for eight displacements \<open>0.1\<close>
  along the first axis they return \<open>2\<^sup>-\<^sup>5\<^sup>5\<close> at four corners and \<open>-2\<^sup>-\<^sup>5\<^sup>5\<close> at the four
  others, where the law gives 0.
\<close>

theorem reorder_round_trip_and_transform_pair:
  "(length u = 24 \<longrightarrow> reformF (reformU u) = u \<and> reformU (reformF u) = u)
   \<and> (length un = 8 \<longrightarrow>
        (\<forall>j<8. au (replicate 8 (fvector 0 0 0)) (aTransposeU un) ! j =
           fvector (8 * f0 (un ! j) - sum_list (map f0 un))
                   (8 * f1 (un ! j) - sum_list (map f1 un))
                   (8 * f2 (un ! j) - sum_list (map f2 un))))
   \<and> (t \<noteq> 0 \<longrightarrow> \<not> (\<exists>k. firstVector second_only t t t = map ((*) k) second_only))
   \<and> au_double (replicate 8 (fvector 0 0 0))
        (aTransposeU_double (replicate 8 (fvector (double_round (1 / 10)) 0 0))) =
      [fvector (1 / 2 ^ 55) 0 0, fvector (1 / 2 ^ 55) 0 0,
       fvector (1 / 2 ^ 55) 0 0, fvector (1 / 2 ^ 55) 0 0,
       fvector (- (1 / 2 ^ 55)) 0 0, fvector (- (1 / 2 ^ 55)) 0 0,
       fvector (- (1 / 2 ^ 55)) 0 0, fvector (- (1 / 2 ^ 55)) 0 0]"
proof (intro conjI impI)
  show "au_double (replicate 8 (fvector 0 0 0))
        (aTransposeU_double (replicate 8 (fvector (double_round (1 / 10)) 0 0))) =
      [fvector (1 / 2 ^ 55) 0 0, fvector (1 / 2 ^ 55) 0 0,
       fvector (1 / 2 ^ 55) 0 0, fvector (1 / 2 ^ 55) 0 0,
       fvector (- (1 / 2 ^ 55)) 0 0, fvector (- (1 / 2 ^ 55)) 0 0,
       fvector (- (1 / 2 ^ 55)) 0 0, fvector (- (1 / 2 ^ 55)) 0 0]"
    by (simp add: double_tenth au_double_aTransposeU_double_tenth)
next
  assume "t \<noteq> 0"
  then show "\<not> (\<exists>k. firstVector second_only t t t = map ((*) k) second_only)"
    by (simp add: firstVector_def second_only_def)
next
  assume "length u = 24"
  then show "reformF (reformU u) = u" and "reformU (reformF u) = u"
    by (rule reformF_reformU, rule reformU_reformF)
next
  assume "length un = 8"
  then obtain v0 v1 v2 v3 v4 v5 v6 v7 where un: "un = [v0, v1, v2, v3, v4, v5, v6, v7]"
    by (rule list_of_length_8)
  have "au (replicate 8 (fvector 0 0 0)) (aTransposeU un) ! j =
      fvector (8 * f0 (un ! j) - sum_list (map f0 un))
              (8 * f1 (un ! j) - sum_list (map f1 un))
              (8 * f2 (un ! j) - sum_list (map f2 un))" if "j < 8" for j
  proof -
    have "au (replicate 8 (fvector 0 0 0)) (aTransposeU un) ! j =
        (\<lambda>v. fvector
          (8 * f0 v - (f0 v0 + f0 v1 + f0 v2 + f0 v3 + f0 v4 + f0 v5 + f0 v6 + f0 v7))
          (8 * f1 v - (f1 v0 + f1 v1 + f1 v2 + f1 v3 + f1 v4 + f1 v5 + f1 v6 + f1 v7))
          (8 * f2 v - (f2 v0 + f2 v1 + f2 v2 + f2 v3 + f2 v4 + f2 v5 + f2 v6 + f2 v7)))
        (un ! j)"
      unfolding un au_aTransposeU_8 using that by (intro nth_map) simp
    then show ?thesis
      by (simp add: un add.assoc)
  qed
  then show "\<forall>j<8. au (replicate 8 (fvector 0 0 0)) (aTransposeU un) ! j =
      fvector (8 * f0 (un ! j) - sum_list (map f0 un))
              (8 * f1 (un ! j) - sum_list (map f1 un))
              (8 * f2 (un ! j) - sum_list (map f2 un))"
    by blast
qed

theorem reorder_round_trip_and_transform_pair_witness:
  "reformU one_to_24 =
     [1, 4, 7, 10, 13, 16, 19, 22, 2, 5, 8, 11, 14, 17, 20, 23, 3, 6, 9, 12, 15, 18, 21, 24]
   \<and> reformF (reformU one_to_24) = one_to_24
   \<and> reformU (reformF one_to_24) = one_to_24
   \<and> au (replicate 8 (fvector 0 0 0)) (aTransposeU corner0_x) ! 0 = fvector 7 0 0
   \<and> au (replicate 8 (fvector 0 0 0)) (aTransposeU corner0_x) ! 1 = fvector (- 1) 0 0
   \<and> \<not> (\<exists>k. firstVector second_only 1 1 1 = map ((*) k) second_only)"
proof -
  have len: "length one_to_24 = 24" "length corner0_x = 8"
    by (simp_all add: one_to_24_def corner0_x_def)
  note inst = reorder_round_trip_and_transform_pair
    [where u = one_to_24 and un = corner0_x and t = 1]
  have "reformU one_to_24 =
     [1, 4, 7, 10, 13, 16, 19, 22, 2, 5, 8, 11, 14, 17, 20, 23, 3, 6, 9, 12, 15, 18, 21, 24]"
    by (simp add: reformU_def one_to_24_def)
  moreover from inst len have "reformF (reformU one_to_24) = one_to_24"
    and "reformU (reformF one_to_24) = one_to_24"
    by simp_all
  moreover from inst len
  have "au (replicate 8 (fvector 0 0 0)) (aTransposeU corner0_x) ! 0 =
      fvector (8 * f0 (corner0_x ! 0) - sum_list (map f0 corner0_x))
              (8 * f1 (corner0_x ! 0) - sum_list (map f1 corner0_x))
              (8 * f2 (corner0_x ! 0) - sum_list (map f2 corner0_x))"
    and "au (replicate 8 (fvector 0 0 0)) (aTransposeU corner0_x) ! 1 =
      fvector (8 * f0 (corner0_x ! 1) - sum_list (map f0 corner0_x))
              (8 * f1 (corner0_x ! 1) - sum_list (map f1 corner0_x))
              (8 * f2 (corner0_x ! 1) - sum_list (map f2 corner0_x))"
    by simp_all
  then have "au (replicate 8 (fvector 0 0 0)) (aTransposeU corner0_x) ! 0 = fvector 7 0 0"
    and "au (replicate 8 (fvector 0 0 0)) (aTransposeU corner0_x) ! 1 = fvector (- 1) 0 0"
    by (simp_all add: corner0_x_def)
  moreover from inst
  have "\<not> (\<exists>k. firstVector second_only 1 1 1 = map ((*) k) second_only)"
    by simp
  ultimately show ?thesis by simp
qed

text \<open>
  C4 as stated fails. For a displacement of 1 along the first axis at corner 0 alone, the
  two transforms give 7 at corner 0 and \<open>-1\<close> at the seven other corners, which is no
  multiple of the input; eight equal displacements are sent to 0; and with
  \<open>a = b = c = 1\<close> the combine step \<^verbatim>\<open>firstVector\<close> sends the array with a single 1 in cell 1
  to an array with a 1 in cells 1 and 19, so it is no multiple of the identity either.
\<close>

theorem transform_pair_is_not_a_scaled_identity:
  "au (replicate 8 (fvector 0 0 0)) (aTransposeU corner0_x) =
     [fvector 7 0 0, fvector (- 1) 0 0, fvector (- 1) 0 0, fvector (- 1) 0 0,
      fvector (- 1) 0 0, fvector (- 1) 0 0, fvector (- 1) 0 0, fvector (- 1) 0 0]
   \<and> \<not> (\<exists>k. au (replicate 8 (fvector 0 0 0)) (aTransposeU corner0_x) =
              map (\<lambda>v. fvector (k * f0 v) (k * f1 v) (k * f2 v)) corner0_x)
   \<and> au (replicate 8 (fvector 0 0 0)) (aTransposeU (replicate 8 (fvector 1 1 1)))
       = replicate 8 (fvector 0 0 0)
   \<and> firstVector second_only 1 1 1 =
       [0, 1, 0, 0, 0, 0, 0, 0, 0, 0, 0, 0, 0, 0, 0, 0, 0, 0, 0, 1, 0, 0, 0, 0]"
proof -
  have outcome: "au (replicate 8 (fvector 0 0 0)) (aTransposeU corner0_x) =
     [fvector 7 0 0, fvector (- 1) 0 0, fvector (- 1) 0 0, fvector (- 1) 0 0,
      fvector (- 1) 0 0, fvector (- 1) 0 0, fvector (- 1) 0 0, fvector (- 1) 0 0]"
    unfolding corner0_x_def au_aTransposeU_8 by simp
  have "\<not> (\<exists>k. au (replicate 8 (fvector 0 0 0)) (aTransposeU corner0_x) =
              map (\<lambda>v. fvector (k * f0 v) (k * f1 v) (k * f2 v)) corner0_x)"
    unfolding outcome by (simp add: corner0_x_def)
  moreover have "au (replicate 8 (fvector 0 0 0)) (aTransposeU (replicate 8 (fvector 1 1 1)))
       = replicate 8 (fvector 0 0 0)"
    by (simp add: aTransposeU_equal_corners au_zero)
  moreover have "firstVector second_only 1 1 1 =
       [0, 1, 0, 0, 0, 0, 0, 0, 0, 0, 0, 0, 0, 0, 0, 0, 0, 0, 0, 1, 0, 0, 0, 0]"
    by (simp add: firstVector_def second_only_def)
  ultimately show ?thesis
    using outcome by simp
qed


section \<open>Claims about the reduction\<close>

lemma rev_entries_reverseLookup: "rev_entries (reverseLookup myMesh n) = node_references myMesh n"
  by (rule nth_equalityI) (simp_all add: rev_entries_def reverseLookup_def)

lemma upt_2: "[0..<2] = [0, 1::nat]"
  by (simp add: upt_rec)

text \<open>The spec's table is a table of slices when the mapper is the identity on all elements.\<close>

lemma reverseLookup_of_slices:
  assumes "\<forall>s<nat (lenum myMesh). mapper s = s"
  shows "reverse_table_of_slices (nat (lenum myMesh)) mapper myMesh (reverseLookup myMesh)"
proof -
  have same: "slice_references (nat (lenum myMesh)) mapper myMesh n = node_references myMesh n"
    for n
    unfolding slice_references_def node_references_def
    by (rule arg_cong [where f = concat], rule map_cong) (use assms in simp_all)
  show ?thesis
    unfolding reverse_table_of_slices_def rev_entries_reverseLookup same
    using distinct_slice_references [of "nat (lenum myMesh)" mapper myMesh]
    by (simp add: same)
qed

text \<open>
  Where the two kernels agree with the host. Take the force kernel's grid to cover the
  linear elements and the reduction kernel's grid to cover the nodes, and let the device's
  force buffer start as a copy of the host's accumulator. If the reverse table lists for
  every node, once each, the (slice, corner) pairs of the force buffer that refer to the
  node, where slice \<open>s\<close> belongs to the element \<open>mapper s\<close>, then the two kernels leave
  at every node the total that \<^verbatim>\<open>compute_addforce_effective_cpu\<close> leaves there. The table
  by element index is such a table when no element is nonlinear (the mapper is the
  identity). Sums are taken in exact arithmetic.
\<close>

lemma kernels_agree_with_host_on_slices:
  assumes "cnt \<le> fst calcGrid * snd calcGrid"
    and "nharbored myMesh \<le> fst addGrid * snd addGrid"
    and "n < nharbored myMesh"
  shows "(reverse_table_of_slices cnt mapper myMesh table \<longrightarrow>
            stiffness_kernels calcGrid addGrid cnt mapper myMesh (eTable mySolver) (tm1 mySolver)
              table lfd (force mySolver) n
            = force (compute_addforce_effective_cpu cnt mapper myMesh mySolver) n)
       \<and> (cnt = nat (lenum myMesh) \<and> (\<forall>s<nat (lenum myMesh). mapper s = s) \<longrightarrow>
            stiffness_kernels calcGrid addGrid cnt mapper myMesh (eTable mySolver) (tm1 mySolver)
              (reverseLookup myMesh) lfd (force mySolver) n
            = force (compute_addforce_effective_cpu cnt mapper myMesh mySolver) n)"
proof -
  have main: "stiffness_kernels calcGrid addGrid cnt mapper myMesh (eTable mySolver) (tm1 mySolver)
        tab lfd (force mySolver) n
      = force (compute_addforce_effective_cpu cnt mapper myMesh mySolver) n"
    if "reverse_table_of_slices cnt mapper myMesh tab" for tab
  proof -
    from that assms(3) have tab:
      "distinct (rev_entries (tab n))"
      "set (rev_entries (tab n)) = set (slice_references cnt mapper myMesh n)"
      by (simp_all add: reverse_table_of_slices_def)
    from assms(2,3) have "n < fst addGrid * snd addGrid" by simp
    with assms(3) show ?thesis
      by (simp add: stiffness_kernels_def Let_def launch_add host_force_total
          gathered_slices [OF tab assms(1)])
  qed
  show ?thesis
  proof (intro conjI impI)
    assume "reverse_table_of_slices cnt mapper myMesh table"
    then show "stiffness_kernels calcGrid addGrid cnt mapper myMesh (eTable mySolver)
        (tm1 mySolver) table lfd (force mySolver) n
      = force (compute_addforce_effective_cpu cnt mapper myMesh mySolver) n"
      by (rule main)
  next
    assume "cnt = nat (lenum myMesh) \<and> (\<forall>s<nat (lenum myMesh). mapper s = s)"
    then have "reverse_table_of_slices cnt mapper myMesh (reverseLookup myMesh)"
      by (simp add: reverseLookup_of_slices)
    then show "stiffness_kernels calcGrid addGrid cnt mapper myMesh (eTable mySolver)
        (tm1 mySolver) (reverseLookup myMesh) lfd (force mySolver) n
      = force (compute_addforce_effective_cpu cnt mapper myMesh mySolver) n"
      by (rule main)
  qed
qed

lemma second_cube_table_of_slices:
  "reverse_table_of_slices 1 second_cube_only two_cubes second_cube_table"
proof -
  have "rev_entries (second_cube_table node) = (if 8 \<le> node \<and> node < 16 then [(0, node - 8)] else [])"
    for node
    by (simp add: rev_entries_def second_cube_table_def)
  moreover have "set (slice_references 1 second_cube_only two_cubes node)
      = (if 8 \<le> node \<and> node < 16 then {(0, node - 8)} else {})" for node
    by (auto simp: set_slice_references second_cube_only_def two_cubes_def)
  ultimately show ?thesis
    by (simp add: reverse_table_of_slices_def)
qed

lemma slice_force_two_cubes:
  "slice_force second_cube_only (elemTable two_cubes) (eTable node8_x) (tm1 node8_x) (0, 0)
     = fvector (- 9) (- (9 / 4)) (- (9 / 4))"
proof -
  have "gather_curDisp (elemTable two_cubes (Suc 0)) (tm1 node8_x) = corner0_x"
    by (simp add: gather_curDisp_def upt_8 two_cubes_def node8_x_def corner0_x_def)
  moreover have "eTable node8_x (Suc 0) = \<lparr>c1 = 2, c2 = 1\<rparr>"
    by (simp add: node8_x_def)
  ultimately show ?thesis
    by (simp add: slice_force_def second_cube_only_def element_localForce_corner0_x)
qed

lemma slice_references_two_cubes_8: "slice_references 1 second_cube_only two_cubes 8 = [(0, 0)]"
  by (simp add: slice_references_def two_cubes_def second_cube_only_def upt_8)

lemma host_two_cubes:
  "force (compute_addforce_effective_cpu 1 second_cube_only two_cubes node8_x) 8
     = fvector (- 9) (- (9 / 4)) (- (9 / 4))"
proof -
  have "force (compute_addforce_effective_cpu 1 second_cube_only two_cubes node8_x) 8 =
      force node8_x 8 + sum_list (map
        (slice_force second_cube_only (elemTable two_cubes) (eTable node8_x) (tm1 node8_x))
        (slice_references 1 second_cube_only two_cubes 8))"
    by (rule host_force_total)
  also have "\<dots> = force node8_x 8 + fvector (- 9) (- (9 / 4)) (- (9 / 4))"
    by (simp only: slice_references_two_cubes_8 list.map sum_list.Cons sum_list.Nil add_0_right
        slice_force_two_cubes)
  also have "\<dots> = fvector (- 9) (- (9 / 4)) (- (9 / 4))"
    by (simp add: node8_x_def plus_fvector_t_def fvector_add_def)
  finally show ?thesis .
qed

lemma host_two_cubes_all_linear:
  "force (compute_addforce_effective_cpu 2 (\<lambda>s. s) two_cubes node8_x) 8
     = fvector (- 9) (- (9 / 4)) (- (9 / 4))"
proof -
  have refs: "slice_references 2 (\<lambda>s. s) two_cubes 8 = [(1, 0)]"
    by (simp add: slice_references_def two_cubes_def upt_2 upt_8)
  have "gather_curDisp (elemTable two_cubes (Suc 0)) (tm1 node8_x) = corner0_x"
    by (simp add: gather_curDisp_def upt_8 two_cubes_def node8_x_def corner0_x_def)
  moreover have "eTable node8_x (Suc 0) = \<lparr>c1 = 2, c2 = 1\<rparr>"
    by (simp add: node8_x_def)
  ultimately have slice:
    "slice_force (\<lambda>s. s) (elemTable two_cubes) (eTable node8_x) (tm1 node8_x) (1, 0)
      = fvector (- 9) (- (9 / 4)) (- (9 / 4))"
    by (simp add: slice_force_def element_localForce_corner0_x)
  have "force (compute_addforce_effective_cpu 2 (\<lambda>s. s) two_cubes node8_x) 8 =
      force node8_x 8 + sum_list (map
        (slice_force (\<lambda>s. s) (elemTable two_cubes) (eTable node8_x) (tm1 node8_x))
        (slice_references 2 (\<lambda>s. s) two_cubes 8))"
    by (rule host_force_total)
  also have "\<dots> = force node8_x 8 + fvector (- 9) (- (9 / 4)) (- (9 / 4))"
    by (simp only: refs list.map sum_list.Cons sum_list.Nil add_0_right slice)
  also have "\<dots> = fvector (- 9) (- (9 / 4)) (- (9 / 4))"
    by (simp add: node8_x_def plus_fvector_t_def fvector_add_def)
  finally show ?thesis .
qed

text \<open>
  On the two cubes the two kernels leave the host's total at node 8 when the table is by
  slice, and also with the table by element index when both elements are linear.
\<close>

lemma kernels_on_two_cubes:
  "stiffness_kernels (3, 1) (17, 1) 1 second_cube_only two_cubes (eTable node8_x) (tm1 node8_x)
       second_cube_table (\<lambda>_. fvector 0 0 0) (force node8_x) 8
     = fvector (- 9) (- (9 / 4)) (- (9 / 4))"
  "stiffness_kernels (3, 1) (17, 1) 2 (\<lambda>s. s) two_cubes (eTable node8_x) (tm1 node8_x)
       (reverseLookup two_cubes) (\<lambda>_. fvector 0 0 0) (force node8_x) 8
     = fvector (- 9) (- (9 / 4)) (- (9 / 4))"
proof -
  have grid1: "1 \<le> fst (3::nat, 1::nat) * snd (3::nat, 1::nat)"
    and grid2: "2 \<le> fst (3::nat, 1::nat) * snd (3::nat, 1::nat)"
    and nodes: "nharbored two_cubes \<le> fst (17::nat, 1::nat) * snd (17::nat, 1::nat)"
      "8 < nharbored two_cubes"
    by (simp_all add: two_cubes_def)
  have all_linear: "2 = nat (lenum two_cubes) \<and> (\<forall>s<nat (lenum two_cubes). (\<lambda>s. s) s = s)"
    by (simp add: two_cubes_def)
  from kernels_agree_with_host_on_slices [OF grid1 nodes, where mapper = second_cube_only
      and table = second_cube_table and mySolver = node8_x and lfd = "\<lambda>_. fvector 0 0 0"]
    second_cube_table_of_slices
  have "stiffness_kernels (3, 1) (17, 1) 1 second_cube_only two_cubes (eTable node8_x)
      (tm1 node8_x) second_cube_table (\<lambda>_. fvector 0 0 0) (force node8_x) 8
     = force (compute_addforce_effective_cpu 1 second_cube_only two_cubes node8_x) 8"
    by blast
  then show "stiffness_kernels (3, 1) (17, 1) 1 second_cube_only two_cubes (eTable node8_x)
      (tm1 node8_x) second_cube_table (\<lambda>_. fvector 0 0 0) (force node8_x) 8
     = fvector (- 9) (- (9 / 4)) (- (9 / 4))"
    by (simp only: host_two_cubes)
  from kernels_agree_with_host_on_slices [OF grid2 nodes, where mapper = "\<lambda>s. s"
      and mySolver = node8_x and lfd = "\<lambda>_. fvector 0 0 0"] all_linear
  have "stiffness_kernels (3, 1) (17, 1) 2 (\<lambda>s. s) two_cubes (eTable node8_x)
      (tm1 node8_x) (reverseLookup two_cubes) (\<lambda>_. fvector 0 0 0) (force node8_x) 8
     = force (compute_addforce_effective_cpu 2 (\<lambda>s. s) two_cubes node8_x) 8"
    by blast
  then show "stiffness_kernels (3, 1) (17, 1) 2 (\<lambda>s. s) two_cubes (eTable node8_x)
      (tm1 node8_x) (reverseLookup two_cubes) (\<lambda>_. fvector 0 0 0) (force node8_x) 8
     = fvector (- 9) (- (9 / 4)) (- (9 / 4))"
    by (simp only: host_two_cubes_all_linear)
qed

text \<open>
  C2 fails on the code. \<^verbatim>\<open>kernelStiffnessCalcLocal\<close> writes the forces of the element
  \<open>mapper[lin_eindex]\<close> to slice \<open>lin_eindex\<close> of the buffer, and
  \<^verbatim>\<open>kernelStiffnessAddLocal\<close> reads slice \<^verbatim>\<open>elemid\<close>, the element of the reverse table's
  entry. On the two cubes with element 0 nonlinear, the selector's mapper has the one cell
  \<open>1\<close>, and the force kernel writes the forces of element 1 to slice 0. The reverse table
  sends node 8 (corner 0 of element 1) to slice 1, which no thread wrote: the accelerator
  leaves at node 8 what the buffer held (here zero), the host the force
  \<open>(-9, -9/4, -9/4)\<close>. With a table that names slice 0 for node 8, and with the same
  table by element when both elements are linear, the accelerator leaves the host's force.
\<close>

theorem accel_differs_from_host_by_element_index:
  "linear_elements_count (\<lambda>_ e. e = 0) two_cubes = Inr 1
   \<and> linear_elements_mapping (\<lambda>_ e. e = 0) two_cubes 1 (\<lambda>_. 7) = Inr second_cube_only
   \<and> node_references two_cubes 8 = [(1, 0)]
   \<and> stiffness_kernels (3, 1) (17, 1) 1 second_cube_only two_cubes (eTable node8_x) (tm1 node8_x)
       (reverseLookup two_cubes) (\<lambda>_. fvector 0 0 0) (force node8_x) 8
     = fvector 0 0 0
   \<and> force (compute_addforce_effective_cpu 1 second_cube_only two_cubes node8_x) 8
     = fvector (- 9) (- (9 / 4)) (- (9 / 4))
   \<and> stiffness_kernels (3, 1) (17, 1) 1 second_cube_only two_cubes (eTable node8_x) (tm1 node8_x)
       second_cube_table (\<lambda>_. fvector 0 0 0) (force node8_x) 8
     = fvector (- 9) (- (9 / 4)) (- (9 / 4))
   \<and> stiffness_kernels (3, 1) (17, 1) 2 (\<lambda>s. s) two_cubes (eTable node8_x) (tm1 node8_x)
       (reverseLookup two_cubes) (\<lambda>_. fvector 0 0 0) (force node8_x) 8
     = fvector (- 9) (- (9 / 4)) (- (9 / 4))"
proof -
  have "linear_elements_count (\<lambda>_ e. e = 0) two_cubes = Inr 1"
    by (simp add: linear_elements_count_def count_step_eq two_cubes_def upt_2)
  moreover have "linear_elements_mapping (\<lambda>_ e. e = 0) two_cubes 1 (\<lambda>_. 7) = Inr second_cube_only"
    by (simp add: linear_elements_mapping_def mapping_step_eq two_cubes_def upt_2
        second_cube_only_def)
  moreover have refs: "node_references two_cubes 8 = [(1, 0)]"
    by (simp add: node_references_def two_cubes_def upt_2 upt_8)
  moreover have "stiffness_kernels (3, 1) (17, 1) 1 second_cube_only two_cubes (eTable node8_x)
      (tm1 node8_x) (reverseLookup two_cubes) (\<lambda>_. fvector 0 0 0) (force node8_x) 8
     = fvector 0 0 0"
  proof -
    let ?dev = "launch 3 1 (kernelStiffnessCalcLocal 1 second_cube_only (elemTable two_cubes)
        (eTable node8_x) (tm1 node8_x)) (\<lambda>_. fvector 0 0 0)"
    have "stiffness_kernels (3, 1) (17, 1) 1 second_cube_only two_cubes (eTable node8_x)
        (tm1 node8_x) (reverseLookup two_cubes) (\<lambda>_. fvector 0 0 0) (force node8_x) 8 =
        launch 17 1 (kernelStiffnessAddLocal (nharbored two_cubes) (reverseLookup two_cubes) ?dev)
          (force node8_x) 8"
      by (simp add: stiffness_kernels_def Let_def)
    also have "\<dots> = force node8_x 8 + gathered ?dev (reverseLookup two_cubes 8)"
      by (simp add: launch_add two_cubes_def)
    also have "gathered ?dev (reverseLookup two_cubes 8) = ?dev 8"
      by (simp add: gathered_def rev_entries_reverseLookup refs)
    also have "?dev 8 = fvector 0 0 0"
      by (simp add: launch_calc)
    also have "force node8_x 8 + fvector 0 0 0 = fvector 0 0 0"
      by (simp add: node8_x_def plus_fvector_t_def fvector_add_def)
    finally show ?thesis .
  qed
  ultimately show ?thesis
    by (simp only: host_two_cubes kernels_on_two_cubes simp_thms)
qed


section \<open>Claims about the accelerator pipeline\<close>




lemma stiffness_init_after_selector:
  "stiffness_init calls p m fresh freshDevice =
     (if lenum m < 0
      then Inl (Abort ''linear_elements_count: more elements than expected'')
      else if malloc_mapper calls \<noteq> cudaSuccess
      then Inl (Abort ''Failed to allocate mapper memory'')
      else case memcpy_mapper calls of
             cudaError msg \<Rightarrow> Inl (Abort (''Failed to copy mapper to device - '' @ msg))
           | cudaSuccess \<Rightarrow>
               (case linear_elements_mapping p m (length (linear_indices p m)) fresh of
                  Inr mapper \<Rightarrow> Inr (length (linear_indices p m), mapper,
                    cudaMemcpy cudaSuccess (length (linear_indices p m)) mapper freshDevice)
                | Inl stop \<Rightarrow> Inl stop))"
proof -
  have "\<not> (\<exists>msg. linear_elements_mapping p m (length (linear_indices p m)) fresh = Inl msg)"
    using linear_elements_mapping_aborts_iff [of p m "length (linear_indices p m)" fresh] by simp
  then obtain mapper where
    "linear_elements_mapping p m (length (linear_indices p m)) fresh = Inr mapper"
    by (cases "linear_elements_mapping p m (length (linear_indices p m)) fresh") auto
  then show ?thesis
    by (simp add: stiffness_init_def linear_elements_count_eq split: cudaError_t.splits)
qed

text \<open>
  C8 fails on the code. In \<^verbatim>\<open>compute_addforce_effective_gpu\<close> neither \<^verbatim>\<open>cudaMemcpy\<close> is
  checked: when both copies fail and the launch succeeds, the step returns as if nothing
  had happened, with the host's accumulator and \<^verbatim>\<open>forceDevice\<close> unchanged. In
  \<^verbatim>\<open>stiffness_init\<close>, once the selector has run (\<^verbatim>\<open>lenum\<close> is not negative), a failed
  allocation aborts without the accelerator's error string. The copy of the mapper and
  the launch are checked and do report the string.
\<close>

theorem failed_copies_go_unnoticed:
  "compute_addforce_effective_gpu copies_fail bs cnt mapper myMesh mySolver gpuData
     = Inr (mySolver,
            gpuData\<lparr>localForceDevice :=
                      launch (nat (c_div (lenum myMesh) (int bs) + 1)) bs
                        (kernelStiffnessCalcLocal cnt mapper (elemTableDevice gpuData)
                           (eTableDevice gpuData) (tm1Device gpuData))
                        (localForceDevice gpuData)\<rparr>)
   \<and> stiffness_init \<lparr>malloc_mapper = cudaError ''out of memory'', memcpy_mapper = cudaSuccess\<rparr>
        p myMesh fresh freshDevice
     = (if lenum myMesh < 0
        then Inl (Abort ''linear_elements_count: more elements than expected'')
        else Inl (Abort ''Failed to allocate mapper memory''))
   \<and> stiffness_init \<lparr>malloc_mapper = cudaSuccess, memcpy_mapper = cudaError ''invalid argument''\<rparr>
        p myMesh fresh freshDevice
     = (if lenum myMesh < 0
        then Inl (Abort ''linear_elements_count: more elements than expected'')
        else Inl (Abort ''Failed to copy mapper to device - invalid argument''))
   \<and> compute_addforce_effective_gpu
        \<lparr>memcpy_to_device = cudaSuccess, kernel_launch = cudaError ''invalid argument'',
         memcpy_to_host = cudaSuccess\<rparr> bs cnt mapper myMesh mySolver gpuData
     = Inl (Abort ''Calc stiffness local kernel - invalid argument'')"
  by (simp add: compute_addforce_effective_gpu_def copies_fail_def cudaMemcpy_def Let_def
      stiffness_init_after_selector)

end
